theory Spec2Isabelle
  imports Complex_Main "HOL-Library.Log_Nat"
begin

section \<open>Numbers and failures\<close>

text \<open>
  The balances, rates and amounts of the program are Python floats, that is IEEE 754
  binary64 numbers. A float is embedded as the real number it denotes, and every
  arithmetic operation of the source is the exact operation followed by \<open>fl\<close>, the
  rounding to the nearest number with 53 significant bits, a tie going to the even
  significand. Two things are outside the embedding: the exponent range (there is no
  overflow to \<open>inf\<close>, no \<open>nan\<close> and no loss of bits near the smallest floats) and the
  sign of zero. Years are Python ints, embedded as \<open>int\<close>; head counts are \<open>nat\<close>.
\<close>

datatype py_error = ZeroDivisionError | KeyError | IndexError | ValueError | OverflowError

definition round_half_even :: "real \<Rightarrow> int" where
  "round_half_even y =
     (let n = \<lfloor>y\<rfloor>; d = y - of_int n
      in if d < 1 / 2 then n
         else if 1 / 2 < d then n + 1
         else if even n then n else n + 1)"

definition pow2 :: "int \<Rightarrow> real" where
  "pow2 k = (if 0 \<le> k then 2 ^ nat k else 1 / 2 ^ nat (- k))"

text \<open>
  The binary exponent of a number other than 0: the \<open>k\<close> with
  \<open>pow2 k \<le> \<bar>x\<bar> < pow2 (k + 1)\<close>, from the bit length of the integer part of \<open>\<bar>x\<bar>\<close>
  or of \<open>1 / \<bar>x\<bar>\<close>.
\<close>

definition expo :: "real \<Rightarrow> int" where
  "expo x = (if 1 \<le> \<bar>x\<bar> then bitlen \<lfloor>\<bar>x\<bar>\<rfloor> - 1
             else - bitlen (\<lceil>1 / \<bar>x\<bar>\<rceil> - 1))"

definition fl :: "real \<Rightarrow> real" where
  "fl x = (if x = 0 then 0
           else let q = pow2 (expo x - 52)
                in of_int (round_half_even (x / q)) * q)"

text \<open>
  The float operations \<open>+\<close>, \<open>-\<close>, \<open>*\<close>, and \<open>/\<close> where the source has made sure that the
  divisor is not 0. \<open>py_div\<close> is \<open>/\<close> with Python's \<open>ZeroDivisionError\<close>.
\<close>

definition fadd :: "real \<Rightarrow> real \<Rightarrow> real" where
  "fadd a b = fl (a + b)"

definition fsub :: "real \<Rightarrow> real \<Rightarrow> real" where
  "fsub a b = fl (a - b)"

definition fmul :: "real \<Rightarrow> real \<Rightarrow> real" where
  "fmul a b = fl (a * b)"

definition fquot :: "real \<Rightarrow> real \<Rightarrow> real" where
  "fquot a b = fl (a / b)"

definition py_div :: "real \<Rightarrow> real \<Rightarrow> py_error + real" where
  "py_div a b = (if b = 0 then Inl ZeroDivisionError else Inr (fquot a b))"

text \<open>
  \<open>round(x, 2)\<close> on a float: the exact value of \<open>x\<close> is rounded to the nearest multiple
  of 0.01, a tie going to the even hundredth, and the result is the float nearest to
  that decimal number.
\<close>

definition py_round2 :: "real \<Rightarrow> real" where
  "py_round2 x = fl (of_int (round_half_even (x * 100)) / 100)"

section \<open>The fund (pensFund.py)\<close>

text \<open>
  The class \<open>pensFund\<close>. The lists \<open>pcts\<close> and every ledger entry are built only as
  three-element list literals (lines 8, 15 and 96) and read only at the indices 0, 1, 2,
  so they are triples here. \<open>vol\<close> is the list the caller passes; it is read by the
  sampling calls of \<open>addInvestmentEarnings\<close>.
\<close>

record pensFund =
  currentYear :: int
  pcts :: "real \<times> real \<times> real"
  vol :: "real list"
  equity :: real
  bonds :: real
  other :: real
  ledger :: "int \<rightharpoonup> real \<times> real \<times> real"

text \<open>
  The scalar state of the class \<open>pensPlan\<close> (pensPlan.py, lines 14-34) and the fund it
  owns. The population object is not part of the embedding: what its methods return
  during one year is an input of the yearly step, see \<open>popYear\<close> below.
\<close>

record pensPlan =
  currentYear :: int
  employ :: real
  cr :: real
  payGo :: real
  totalPay :: real
  pr :: real
  instability :: real
  r :: real
  discountRate :: real
  liability :: real
  fund :: pensFund
  ual :: real
  assets :: real
  growthRate :: real

text \<open>\<open>__init__\<close> (lines 6-15); the callers that omit the fractions pass 0.6, 0.3, 0.1.\<close>

definition pensFund_init ::
  "real \<Rightarrow> int \<Rightarrow> real list \<Rightarrow> real \<Rightarrow> real \<Rightarrow> real \<Rightarrow> pensFund" where
  "pensFund_init assetTotal currYear volatility pctE pctB pctO =
     (let e = py_round2 (fmul pctE assetTotal);
          b = py_round2 (fmul pctB assetTotal);
          ot = py_round2 (fmul pctO assetTotal)
      in \<lparr> pensFund.currentYear = currYear, pcts = (pctE, pctB, pctO), vol = volatility,
           equity = e, bonds = b, other = ot,
           ledger = [currYear \<mapsto> (e, b, ot)] \<rparr>)"

text \<open>\<open>addPremiums\<close> (lines 33-42).\<close>

definition addPremiums :: "pensFund \<Rightarrow> real \<Rightarrow> pensFund" where
  "addPremiums f premiums =
     (let total = fadd (fadd (equity f) (bonds f)) (other f)
      in if total = 0 then
           f\<lparr> equity := fadd (equity f) (fmul (fst (pcts f)) premiums),
              bonds := fadd (bonds f) (fmul (fst (snd (pcts f))) premiums),
              other := fadd (other f) (fmul (snd (snd (pcts f))) premiums) \<rparr>
         else
           f\<lparr> equity := fadd (equity f) (fmul (fquot (equity f) total) premiums),
              bonds := fadd (bonds f) (fmul (fquot (bonds f) total) premiums),
              other := fadd (other f) (fmul (fquot (other f) total) premiums) \<rparr>)"

text \<open>
  \<open>payGo\<close> (lines 44-58) returns the amount and the fund it leaves. The \<open>for\<close> loop
  over the three balances is the fold.
\<close>

definition payGo :: "pensFund \<Rightarrow> real \<times> pensFund" where
  "payGo f =
     (let total = fadd (fadd (equity f) (bonds f)) (other f)
      in if total \<ge> 0 then (0, f)
         else
           (let total = fold (\<lambda>asset t. if asset < 0 then fsub t asset else t)
                             [equity f, bonds f, other f] 0
            in (total, f\<lparr> equity := max (equity f) 0,
                           bonds := max (bonds f) 0,
                           other := max (other f) 0 \<rparr>)))"

text \<open>
  \<open>payBenefits\<close> (lines 60-70): the withdrawal of lines 61-69, then \<open>payGo\<close> on the fund
  it leaves (line 70).
\<close>

definition payBenefits_withdraw :: "pensFund \<Rightarrow> real \<Rightarrow> pensFund" where
  "payBenefits_withdraw f benefits =
     (let total = fadd (fadd (equity f) (bonds f)) (other f)
      in if total = 0 then
           f\<lparr> equity := fsub (equity f) (fmul (fst (pcts f)) benefits),
              bonds := fsub (bonds f) (fmul (fst (snd (pcts f))) benefits),
              other := fsub (other f) (fmul (snd (snd (pcts f))) benefits) \<rparr>
         else
           f\<lparr> equity := fsub (equity f) (fmul (fquot (equity f) total) benefits),
              bonds := fsub (bonds f) (fmul (fquot (bonds f) total) benefits),
              other := fsub (other f) (fmul (fquot (other f) total) benefits) \<rparr>)"

definition payBenefits :: "pensFund \<Rightarrow> real \<Rightarrow> real \<times> pensFund" where
  "payBenefits f benefits = payGo (payBenefits_withdraw f benefits)"

text \<open>
  The three calls \<open>np.random.normal(self.vol[i], self.vol[i + 1])\<close> of lines 73-75, in
  their order: reading an index the list does not have raises \<open>IndexError\<close>, and the
  sampler raises \<open>ValueError\<close> on a negative standard deviation.
\<close>

definition sampling_error :: "real list \<Rightarrow> py_error option" where
  "sampling_error v =
     (if length v < 2 then Some IndexError
      else if v ! 1 < 0 then Some ValueError
      else if length v < 4 then Some IndexError
      else if v ! 3 < 0 then Some ValueError
      else if length v < 6 then Some IndexError
      else if v ! 5 < 0 then Some ValueError
      else None)"

text \<open>
  \<open>addInvestmentEarnings\<close> (lines 72-92). The three samples are the arguments \<open>e\<close>,
  \<open>b\<close> and \<open>ot\<close> (the source's \<open>o\<close>): the function is modelled for every value the
  sampler can hand back (and for more: with a deviation of 0 it hands back the mean). The result is the pair \<open>[r, A]\<close> or the exception raised,
  and the fund as the call leaves it: the balances are overwritten (lines 82-88) before
  the division of line 91 is tried.
\<close>

definition addInvestmentEarnings ::
  "pensFund \<Rightarrow> real \<Rightarrow> real \<Rightarrow> real \<Rightarrow> (py_error + real \<times> real) \<times> pensFund" where
  "addInvestmentEarnings f e b ot =
     (case sampling_error (vol f) of
        Some err \<Rightarrow> (Inl err, f)
      | None \<Rightarrow>
          (let A = fadd (fadd (equity f) (bonds f)) (other f);
               f1 = f\<lparr> equity := fmul (equity f) (fadd 1 e),
                       bonds := fmul (bonds f) (fadd 1 b),
                       other := fmul (other f) (fadd 1 ot) \<rparr>;
               f2 = f1\<lparr> equity := py_round2 (equity f1),
                         bonds := py_round2 (bonds f1),
                         other := py_round2 (other f1) \<rparr>;
               newA = fadd (fadd (equity f2) (bonds f2)) (other f2)
           in case py_div (fsub newA A) A of
                Inl err \<Rightarrow> (Inl err, f2)
              | Inr ret \<Rightarrow> (Inr (ret, A), f2)))"

text \<open>\<open>updateLedger\<close> (lines 94-96).\<close>

definition updateLedger :: "pensFund \<Rightarrow> int \<Rightarrow> pensFund" where
  "updateLedger f year =
     f\<lparr> pensFund.currentYear := year,
        ledger := (ledger f)(year \<mapsto> (equity f, bonds f, other f)) \<rparr>"

text \<open>
  \<open>annualReport\<close> (lines 17-28). The argument \<open>year0\<close> is the source's \<open>year\<close> before its
  reassignment. The two number formats are Python's own and are parameters:
  \<open>grouped\<close> is \<open>'{:,}'.format\<close> and \<open>fixed0\<close> is \<open>"%.0f" %\<close> on an int that a float can
  hold; on an int of magnitude \<open>2 ^ 1024 - 2 ^ 970\<close> or more the conversion to a float
  raises \<open>OverflowError\<close>. What \<open>'{:,}'.format\<close> prints depends on more than the real
  number a stored object denotes: a balance that \<open>payGo\<close> has replaced is the int 0 and
  prints as \<open>0\<close>, not \<open>0.0\<close>, and a zero can carry a sign. The balances of the model do
  not record this, so it is an input: \<open>kinds\<close> gives, for the three stored numbers and
  for their rounded sum, what else \<open>grouped\<close> needs to know of the object. \<open>sum\<close>
  starts from the int 0, which leaves the first number as it is.
\<close>

definition annualReport ::
  "('k \<Rightarrow> real \<Rightarrow> string) \<Rightarrow> (int \<Rightarrow> string) \<Rightarrow> 'k \<times> 'k \<times> 'k \<times> 'k \<Rightarrow>
     pensFund \<Rightarrow> int \<Rightarrow> py_error + string" where
  "annualReport grouped fixed0 kinds f year0 =
     (let year = (if year0 = 0 then pensFund.currentYear f else year0)
      in case ledger f year of
           Some report \<Rightarrow>
             (case (report, kinds) of ((x0, x1, x2), (k0, k1, k2, k3)) \<Rightarrow>
                Inr (''Assets:'' @ [CHR 0x0A, CHR 0x09] @ ''Equity = $'' @ grouped k0 x0
                     @ [CHR 0x0A, CHR 0x09] @ ''Bonds = $'' @ grouped k1 x1
                     @ [CHR 0x0A, CHR 0x09] @ ''Other = $'' @ grouped k2 x2
                     @ [CHR 0x0A] @ ''Total: $''
                     @ grouped k3 (py_round2 (fadd (fadd x0 x1) x2))))
         | None \<Rightarrow>
             (if 2 ^ 1024 - 2 ^ 970 \<le> \<bar>year\<bar> then Inl OverflowError
              else Inr (''Assets could not be found for the year '' @ fixed0 year @ ''.'')))"

section \<open>The plan (pensPlan.py)\<close>

text \<open>
  The module \<open>pensPop\<close> is outside the embedding. One call of \<open>advanceOneYear\<close> reads
  from the population: \<open>info['benefit']\<close> (line 76), the number of active members before
  and after \<open>hireReplacements\<close> (lines 62 and 64), \<open>calculateTotalLiability()\<close> (line 67)
  and \<open>calculateTotalSalary()\<close> (line 70). These are the fields of \<open>popYear\<close>; the calls
  themselves are taken to return.
\<close>

record popYear =
  info_benefit :: real
  activeBefore :: nat
  activeAfter :: nat
  totalLiability :: real
  totalSalary :: real

text \<open>
  Lines 83-90, the contribution rate. Only the division of the \<open>else\<close> branch is inside
  a \<open>try\<close>. \<open>popGrowth\<close> is an int, which the product turns into a float.
\<close>

definition advanceOneYear_cr :: "int \<Rightarrow> real \<Rightarrow> real \<Rightarrow> real \<Rightarrow> py_error + real" where
  "advanceOneYear_cr popGrowth normalCost payGo' totalPay' =
     (if popGrowth \<noteq> 0 then
        py_div (fadd normalCost payGo') (fmul totalPay' (fl (of_int popGrowth)))
      else
        (case py_div (fadd normalCost payGo') totalPay' of
           Inl ZeroDivisionError \<Rightarrow> Inr 0
         | Inl err \<Rightarrow> Inl err
         | Inr c \<Rightarrow> Inr c))"

text \<open>
  Lines 94-101, the growth rate, from the stored \<open>ual\<close>, \<open>newUAL\<close> and the stored
  \<open>liability\<close>. The division inside the \<open>except\<close> handler is not guarded.
\<close>

definition advanceOneYear_growthRate :: "real \<Rightarrow> real \<Rightarrow> real \<Rightarrow> py_error + real" where
  "advanceOneYear_growthRate ual' newUAL liability' =
     (case (case py_div (fmul (fsub newUAL ual') 100) ual' of
              Inl ZeroDivisionError \<Rightarrow>
                (if newUAL \<noteq> 0 then py_div (fmul newUAL 100) liability' else Inr 0)
            | Inl err \<Rightarrow> Inl err
            | Inr g \<Rightarrow> Inr g) of
        Inl err \<Rightarrow> Inl err
      | Inr g \<Rightarrow> Inr (py_round2 g))"

text \<open>
  \<open>advanceOneYear\<close> (lines 56-102), with the year's population results and the three
  samples of the earnings step as arguments. The result is the exception that leaves the
  call, if any, and the plan as the call leaves it: an exception ends the call where it
  is raised, with every assignment made before it in place.
\<close>

definition advanceOneYear ::
  "pensPlan \<Rightarrow> popYear \<Rightarrow> real \<Rightarrow> real \<Rightarrow> real \<Rightarrow> py_error option \<times> pensPlan" where
  "advanceOneYear p pop e b ot =
     (let year = pensPlan.currentYear p + 1;
          popGrowth = int (activeAfter pop) - int (activeBefore pop);
          newLiability = py_round2 (totalLiability pop);
          normalCost = fsub newLiability (liability p);
          p1 = p\<lparr> currentYear := year,
                  liability := newLiability,
                  totalPay := py_round2 (totalSalary pop) \<rparr>
      in case addInvestmentEarnings (fund p) e b ot of
           (Inl err, f1) \<Rightarrow> (Some err, p1\<lparr> fund := f1 \<rparr>)
         | (Inr (ret, A), f1) \<Rightarrow>
             (let contribution = fmul (pr p) normalCost;
                  f2 = addPremiums f1 contribution;
                  (shortfall, f3) = payBenefits f2 (info_benefit pop);
                  f4 = updateLedger f3 year;
                  p2 = p1\<lparr> r := py_round2 (fmul ret 100),
                           payGo := py_round2 shortfall,
                           fund := f4 \<rparr>
              in case ledger f4 year of
                   None \<Rightarrow> (Some KeyError, p2)
                 | Some (x0, x1, x2) \<Rightarrow>
                     (let p3 = p2\<lparr> assets := fadd (fadd x0 x1) x2,
                                   instability :=
                                     fsub (fadd contribution (fmul (discountRate p) newLiability))
                                          (fadd (fmul ret A) normalCost) \<rparr>
                      in case advanceOneYear_cr popGrowth normalCost (pensPlan.payGo p3)
                                (totalPay p3) of
                           Inl err \<Rightarrow> (Some err, p3)
                         | Inr cr' \<Rightarrow>
                             (let p4 = p3\<lparr> cr := cr' \<rparr>;
                                  newUAL = max (fsub (fsub (liability p4) (assets p4))
                                                     (pensPlan.payGo p4)) 0
                              in case advanceOneYear_growthRate (ual p) newUAL (liability p4) of
                                   Inl err \<Rightarrow> (Some err, p4)
                                 | Inr growthRate' \<Rightarrow>
                                     (None, p4\<lparr> growthRate := growthRate',
                                                 ual := newUAL \<rparr>)))))"

section \<open>A fund and a plan for the examples\<close>

text \<open>
  The default allocation of line 6, the volatility list of the source's own test
  (line 103) and the default discount rate of \<open>pensPlan\<close>. A decimal literal of the
  source is the float nearest to it.
\<close>

definition default_pcts :: "real \<times> real \<times> real" where
  "default_pcts = (fl (6 / 10), fl (3 / 10), fl (1 / 10))"

definition test_vol :: "real list" where
  "test_vol = [fl (6 / 100), fl (3 / 100), fl (4 / 100), fl (1 / 100), fl (6 / 100), fl (5 / 100)]"

definition default_discountRate :: real where
  "default_discountRate = fl (7 / 100)"

text \<open>
  The fund of year 2020 with the three balances given; the ledger holds what
  \<open>updateLedger\<close> would have recorded for them.
\<close>

abbreviation fund_with :: "real \<Rightarrow> real \<Rightarrow> real \<Rightarrow> pensFund" where
  "fund_with x y z \<equiv>
     \<lparr> pensFund.currentYear = 2020, pcts = default_pcts, vol = test_vol,
       equity = x, bonds = y, other = z, ledger = [2020 \<mapsto> (x, y, z)] \<rparr>"

text \<open>
  The plan of year 2020 that owns the fund \<open>f\<close>, with the liability, the unfunded
  liability and the assets given, and a premium rate of 1.
\<close>

abbreviation plan_with :: "pensFund \<Rightarrow> real \<Rightarrow> real \<Rightarrow> real \<Rightarrow> pensPlan" where
  "plan_with f liab u a \<equiv>
     \<lparr> pensPlan.currentYear = 2020, employ = 1, cr = 0, pensPlan.payGo = 0, totalPay = 0,
       pr = 1, instability = 1, r = 0, discountRate = default_discountRate, liability = liab,
       fund = f, ual = u, assets = a, growthRate = 0 \<rparr>"

section \<open>Properties of the rounding\<close>

text \<open>
  What the proofs below need of \<open>fl\<close>: it keeps the sign, it returns 0 only on 0, and
  its error is at most half a unit in the last place, \<open>\<bar>x\<bar> / 2 ^ 53\<close>.
\<close>

lemma pow2_powi: "pow2 k = 2 powi k"
  by (simp add: pow2_def power_int_def field_simps flip: power_inverse)

lemma pow2_pos: "0 < pow2 k"
  by (simp add: pow2_def)

lemma round_half_even_error: "\<bar>of_int (round_half_even y) - y\<bar> \<le> 1 / 2"
  unfolding round_half_even_def Let_def by (auto simp add: abs_if) linarith+

lemma round_half_even_nonneg: "0 \<le> y \<Longrightarrow> 0 \<le> round_half_even y"
  unfolding round_half_even_def Let_def by auto

lemma round_half_even_nonpos: "y \<le> 0 \<Longrightarrow> round_half_even y \<le> 0"
proof -
  assume y: "y \<le> 0"
  have "\<bar>of_int (round_half_even y) - y\<bar> \<le> 1 / 2" by (rule round_half_even_error)
  with y have "real_of_int (round_half_even y) \<le> 1 / 2" by linarith
  then show ?thesis by linarith
qed

lemma round_half_even_pos: "1 \<le> y \<Longrightarrow> 1 \<le> round_half_even y"
proof -
  assume y: "1 \<le> y"
  have "\<bar>of_int (round_half_even y) - y\<bar> \<le> 1 / 2" by (rule round_half_even_error)
  with y have "1 / 2 \<le> real_of_int (round_half_even y)" by linarith
  then show ?thesis by linarith
qed

lemma round_half_even_neg: "y \<le> - 1 \<Longrightarrow> round_half_even y \<le> - 1"
proof -
  assume y: "y \<le> - 1"
  have "\<bar>of_int (round_half_even y) - y\<bar> \<le> 1 / 2" by (rule round_half_even_error)
  with y have "real_of_int (round_half_even y) \<le> - 1 / 2" by linarith
  then show ?thesis by linarith
qed

lemma fl_zero: "fl 0 = 0"
  by (simp add: fl_def)

lemma fl_nonneg: "0 \<le> x \<Longrightarrow> 0 \<le> fl x"
  using pow2_pos [of "expo x - 52"]
  by (auto simp add: fl_def Let_def intro!: mult_nonneg_nonneg round_half_even_nonneg
        divide_nonneg_pos)

lemma fl_nonpos: "x \<le> 0 \<Longrightarrow> fl x \<le> 0"
  using pow2_pos [of "expo x - 52"]
  by (auto simp add: fl_def Let_def intro!: mult_nonpos_nonneg round_half_even_nonpos
        divide_nonpos_pos)

lemma expo_lower:
  assumes "x \<noteq> 0"
  shows "pow2 (expo x) \<le> \<bar>x\<bar>"
proof (cases "1 \<le> \<bar>x\<bar>")
  case True
  define n where "n = \<lfloor>\<bar>x\<bar>\<rfloor>"
  have n: "0 < n" using True by (simp add: n_def)
  from bitlen_bounds [OF n] have "2 ^ nat (bitlen n - 1) \<le> n" by simp
  then have "(2::real) ^ nat (bitlen n - 1) \<le> of_int n"
    by (metis of_int_le_iff of_int_numeral of_int_power)
  also have "\<dots> \<le> \<bar>x\<bar>" by (simp add: n_def)
  finally have le: "(2::real) ^ nat (bitlen n - 1) \<le> \<bar>x\<bar>" .
  from n have "1 \<le> bitlen n" by (simp add: bitlen_alt_def)
  with le True show ?thesis by (simp add: expo_def pow2_def n_def)
next
  case False
  define z where "z = 1 / \<bar>x\<bar>"
  from assms False have z: "1 < z" by (simp add: z_def)
  define m where "m = \<lceil>z\<rceil> - 1"
  from z have m: "0 < m" unfolding m_def by linarith
  from bitlen_bounds [OF m] have "m < 2 ^ nat (bitlen m)" by simp
  then have "m + 1 \<le> 2 ^ nat (bitlen m)" by simp
  then have "real_of_int (m + 1) \<le> 2 ^ nat (bitlen m)"
    by (metis of_int_le_iff of_int_numeral of_int_power)
  moreover have "z \<le> real_of_int (m + 1)" by (simp add: m_def)
  ultimately have zle: "z \<le> 2 ^ nat (bitlen m)" by linarith
  from m have b: "1 \<le> bitlen m" by (simp add: bitlen_alt_def)
  from zle assms have "1 / 2 ^ nat (bitlen m) \<le> \<bar>x\<bar>"
    by (simp add: z_def field_simps)
  with False b show ?thesis by (simp add: expo_def pow2_def z_def m_def)
qed

lemma fl_eq_0_iff: "fl x = 0 \<longleftrightarrow> x = 0"
proof
  assume f: "fl x = 0"
  show "x = 0"
  proof (rule ccontr)
    assume x: "x \<noteq> 0"
    define q where "q = pow2 (expo x - 52)"
    have q: "0 < q" by (simp add: q_def pow2_pos)
    have "q = pow2 (expo x) / 2 ^ 52"
      by (simp add: q_def pow2_powi power_int_diff)
    also have "\<dots> \<le> pow2 (expo x)" using pow2_pos [of "expo x"] by (simp add: field_simps)
    also have "\<dots> \<le> \<bar>x\<bar>" by (rule expo_lower [OF x])
    finally have "1 \<le> \<bar>x\<bar> / q" using q by (simp add: field_simps)
    then have "1 \<le> x / q \<or> x / q \<le> - 1" using q by (auto simp add: abs_if field_simps split: if_splits)
    then have "round_half_even (x / q) \<noteq> 0"
      using round_half_even_pos [of "x / q"] round_half_even_neg [of "x / q"] by auto
    with f x q show False by (simp add: fl_def Let_def q_def)
  qed
next
  assume "x = 0" then show "fl x = 0" by (simp add: fl_zero)
qed

lemma fl_error: "\<bar>fl x - x\<bar> \<le> \<bar>x\<bar> / 2 ^ 53"
proof (cases "x = 0")
  case True then show ?thesis by (simp add: fl_zero)
next
  case False
  define q where "q = pow2 (expo x - 52)"
  have q: "0 < q" by (simp add: q_def pow2_pos)
  have q2: "q = pow2 (expo x) / 2 ^ 52"
    by (simp add: q_def pow2_powi power_int_diff)
  have "fl x - x = (of_int (round_half_even (x / q)) - x / q) * q"
    using False q by (simp add: fl_def Let_def q_def field_simps)
  then have "\<bar>fl x - x\<bar> = \<bar>of_int (round_half_even (x / q)) - x / q\<bar> * q"
    using q by (simp add: abs_mult)
  also have "\<dots> \<le> 1 / 2 * q"
    using round_half_even_error [of "x / q"] q by (intro mult_right_mono) auto
  also have "\<dots> = pow2 (expo x) / 2 ^ 53" by (simp add: q2)
  also have "\<dots> \<le> \<bar>x\<bar> / 2 ^ 53"
    using expo_lower [OF False] by (simp add: divide_right_mono)
  finally show ?thesis .
qed

lemma py_round2_nonneg: "0 \<le> x \<Longrightarrow> 0 \<le> py_round2 x"
  unfolding py_round2_def
  by (intro fl_nonneg divide_nonneg_pos) (simp_all add: round_half_even_nonneg)

lemma py_round2_zero: "py_round2 0 = 0"
  by (simp add: py_round2_def round_half_even_def fl_zero)

lemma py_round2_hundredth: "\<exists>k. py_round2 x = fl (of_int k / 100)"
  unfolding py_round2_def by blast

text \<open>
  The equations that evaluate the float operations on numerals.
\<close>

lemmas fl_eval = fl_def expo_def pow2_def round_half_even_def compute_bitlen Let_def
  fadd_def fsub_def fmul_def fquot_def py_round2_def py_div_def

lemma sampling_test_vol: "sampling_error test_vol = None"
  by (simp add: sampling_error_def test_vol_def fl_eval)

section \<open>Shortfall correction\<close>

text \<open>
  C1. \<open>payGo\<close> on a fund whose balances sum to a negative number replaces every negative
  balance by zero, keeps every other balance, and returns the sum of the absolute values
  of the negative balances; on a fund whose balances sum to zero or more it returns 0 and
  the fund as it was. The sums are the source's float sums: \<open>equity + bonds + other\<close>
  for the test, and the absolute values added to 0 in the order equity, bonds, other for
  the amount. The balances (-50, 30, 10) become (0, 30, 10) and 50 is returned.
\<close>

theorem payGo_behaviour:
  "(fadd (fadd (equity f) (bonds f)) (other f) < 0 \<longrightarrow>
      equity (snd (payGo f)) = (if equity f < 0 then 0 else equity f) \<and>
      bonds (snd (payGo f)) = (if bonds f < 0 then 0 else bonds f) \<and>
      other (snd (payGo f)) = (if other f < 0 then 0 else other f) \<and>
      pensFund.currentYear (snd (payGo f)) = pensFund.currentYear f \<and>
      pcts (snd (payGo f)) = pcts f \<and> vol (snd (payGo f)) = vol f \<and>
      ledger (snd (payGo f)) = ledger f \<and>
      fst (payGo f)
        = foldl fadd 0 (map abs (filter (\<lambda>x. x < 0) [equity f, bonds f, other f]))) \<and>
   (0 \<le> fadd (fadd (equity f) (bonds f)) (other f) \<longrightarrow> payGo f = (0, f)) \<and>
   (equity f = -50 \<and> bonds f = 30 \<and> other f = 10 \<longrightarrow>
      payGo f = (50, f\<lparr> equity := 0, bonds := 30, other := 10 \<rparr>))"
proof (intro conjI impI)
  assume "equity f = -50 \<and> bonds f = 30 \<and> other f = 10"
  then show "payGo f = (50, f\<lparr> equity := 0, bonds := 30, other := 10 \<rparr>)"
    by (simp add: payGo_def fl_eval)
qed (simp_all add: payGo_def Let_def max_def fsub_def fadd_def)

theorem payGo_behaviour_witness:
  "payGo (fund_with (-50) 30 10) = (50, fund_with (-50) 30 10 \<lparr> equity := 0 \<rparr>)
   \<and> fadd (fadd (-50) 30) 10 = -10
   \<and> payGo (fund_with 0 30 10) = (0, fund_with 0 30 10)
   \<and> fadd (fadd 0 30) 10 = 40"
proof -
  have a: "fadd (fadd (-50) 30) 10 = -10" by (simp add: fl_eval)
  have b: "fadd (fadd 0 30) 10 = 40" by (simp add: fl_eval)
  from payGo_behaviour [of "fund_with (-50) 30 10"] payGo_behaviour [of "fund_with 0 30 10"] a b
  show ?thesis by simp
qed

text \<open>
  C10. A fund whose balances sum to zero or more, one of them being negative, is returned
  by \<open>payGo\<close> as it is, with the amount 0: the negative balance stays, however often
  the correction is applied.
\<close>

theorem payGo_keeps_negative:
  "0 \<le> fadd (fadd (equity f) (bonds f)) (other f) \<Longrightarrow>
   equity f < 0 \<or> bonds f < 0 \<or> other f < 0 \<Longrightarrow>
     payGo f = (0, f) \<and> ((snd \<circ> payGo) ^^ n) f = f \<and>
     (equity (snd (payGo f)) < 0 \<or> bonds (snd (payGo f)) < 0 \<or> other (snd (payGo f)) < 0)"
  by (induction n) (simp_all add: payGo_def)

theorem payGo_keeps_negative_witness:
  "fadd (fadd (-10) 30) 10 = 30
   \<and> payGo (fund_with (-10) 30 10) = (0, fund_with (-10) 30 10)
   \<and> ((snd \<circ> payGo) ^^ 3) (fund_with (-10) 30 10) = fund_with (-10) 30 10
   \<and> equity (snd (payGo (fund_with (-10) 30 10))) = -10"
proof -
  have a: "fadd (fadd (-10) 30) 10 = 30" by (simp add: fl_eval)
  from payGo_keeps_negative [of "fund_with (-10) 30 10" 3] a
  show ?thesis by simp
qed

section \<open>The ledger\<close>

text \<open>
  C7. \<open>updateLedger f Y\<close> records the current balances under the year \<open>Y\<close> and leaves the
  entry of every other year as it was; it sets the fund's current year to \<open>Y\<close>, and no
  other operation on a fund (\<open>addPremiums\<close>, \<open>payGo\<close>, \<open>payBenefits\<close>,
  \<open>addInvestmentEarnings\<close>, whether it returns or raises) changes the current year.
  (\<open>annualReport\<close> returns a string and no fund.)
\<close>

theorem updateLedger_frame:
  "ledger (updateLedger f Y) Y = Some (equity f, bonds f, other f) \<and>
   (\<forall>y. y \<noteq> Y \<longrightarrow> ledger (updateLedger f Y) y = ledger f y) \<and>
   pensFund.currentYear (updateLedger f Y) = Y \<and>
   pensFund.currentYear (addPremiums f a) = pensFund.currentYear f \<and>
   pensFund.currentYear (snd (payGo f)) = pensFund.currentYear f \<and>
   pensFund.currentYear (snd (payBenefits f a)) = pensFund.currentYear f \<and>
   pensFund.currentYear (snd (addInvestmentEarnings f e b ot)) = pensFund.currentYear f"
  by (auto simp add: updateLedger_def addPremiums_def payGo_def payBenefits_def
        payBenefits_withdraw_def addInvestmentEarnings_def py_div_def Let_def
        split: if_splits option.splits)

theorem updateLedger_frame_witness:
  "ledger (updateLedger (fund_with 100 30 10) 2021) 2021 = Some (100, 30, 10)
   \<and> ledger (updateLedger (fund_with 100 30 10) 2021) 2020 = ledger (fund_with 100 30 10) 2020
   \<and> pensFund.currentYear (updateLedger (fund_with 100 30 10) 2021) = 2021"
proof -
  note t = updateLedger_frame [of "fund_with 100 30 10" 2021 0 0 0 0]
  have n: "(2020::int) \<noteq> 2021" by simp
  from t have c1: "ledger (updateLedger (fund_with 100 30 10) 2021) 2021
                   = Some (equity (fund_with 100 30 10), bonds (fund_with 100 30 10),
                           other (fund_with 100 30 10))"
    by (rule conjunct1)
  from t have q: "\<forall>y. y \<noteq> 2021 \<longrightarrow>
        ledger (updateLedger (fund_with 100 30 10) 2021) y = ledger (fund_with 100 30 10) y"
    by (rule conjunct1 [OF conjunct2])
  from t have c3: "pensFund.currentYear (updateLedger (fund_with 100 30 10) 2021) = 2021"
    by (rule conjunct1 [OF conjunct2 [OF conjunct2]])
  have c2: "ledger (updateLedger (fund_with 100 30 10) 2021) 2020
            = ledger (fund_with 100 30 10) 2020"
    using q [rule_format, OF n] .
  from c1 have c1': "ledger (updateLedger (fund_with 100 30 10) 2021) 2021 = Some (100, 30, 10)"
    by simp
  show ?thesis using c1' c2 c3 by (intro conjI)
qed

section \<open>Rounding of the balances\<close>

text \<open>
  A balance is rounded to 2 decimal places when it is the float nearest to a whole number
  of hundredths. The floats 1.125 and 0.875 are not.
\<close>

lemma not_hundredth_9_8: "\<not> (\<exists>k::int. (9 / 8 :: real) = fl (of_int k / 100))"
proof
  assume "\<exists>k::int. (9 / 8 :: real) = fl (of_int k / 100)"
  then obtain k :: int where k: "(9 / 8 :: real) = fl (of_int k / 100)" ..
  have e: "\<bar>9 / 8 - real_of_int k / 100\<bar> \<le> \<bar>real_of_int k / 100\<bar> / 2 ^ 53"
    by (subst k) (rule fl_error)
  show False
  proof (cases "k \<le> 112")
    case True
    then have "real_of_int k \<le> 112" by linarith
    with e show False by (simp add: abs_if split: if_splits)
  next
    case False
    then have "113 \<le> real_of_int k" by linarith
    with e show False by (simp add: abs_if split: if_splits)
  qed
qed

lemma not_hundredth_7_8: "\<not> (\<exists>k::int. (7 / 8 :: real) = fl (of_int k / 100))"
proof
  assume "\<exists>k::int. (7 / 8 :: real) = fl (of_int k / 100)"
  then obtain k :: int where k: "(7 / 8 :: real) = fl (of_int k / 100)" ..
  have e: "\<bar>7 / 8 - real_of_int k / 100\<bar> \<le> \<bar>real_of_int k / 100\<bar> / 2 ^ 53"
    by (subst k) (rule fl_error)
  show False
  proof (cases "k \<le> 87")
    case True
    then have "real_of_int k \<le> 87" by linarith
    with e show False by (simp add: abs_if split: if_splits)
  next
    case False
    then have "88 \<le> real_of_int k" by linarith
    with e show False by (simp add: abs_if split: if_splits)
  qed
qed

text \<open>
  C2, as the spec states it, fails: \<open>addPremiums\<close> and \<open>payBenefits\<close> do not round. A
  fund with the balances (1, 1, 2) holds 1.125 in equity after a premium of 0.5 and 0.875
  after a benefit of 0.5; neither is a float nearest to a number of hundredths, and
  \<open>round(x, 2)\<close> changes both.
\<close>

theorem premiums_benefits_unrounded_counterexample:
  "equity (addPremiums (fund_with 1 1 2) (1 / 2)) = 9 / 8 \<and>
   \<not> (\<exists>k::int. (9 / 8 :: real) = fl (of_int k / 100)) \<and>
   py_round2 (9 / 8) \<noteq> 9 / 8 \<and>
   equity (snd (payBenefits (fund_with 1 1 2) (1 / 2))) = 7 / 8 \<and>
   \<not> (\<exists>k::int. (7 / 8 :: real) = fl (of_int k / 100)) \<and>
   py_round2 (7 / 8) \<noteq> 7 / 8"
proof (intro conjI)
  show "equity (addPremiums (fund_with 1 1 2) (1 / 2)) = 9 / 8"
    by (simp add: addPremiums_def fl_eval)
  show "equity (snd (payBenefits (fund_with 1 1 2) (1 / 2))) = 7 / 8"
    by (simp add: payBenefits_def payBenefits_withdraw_def payGo_def fl_eval)
  show "py_round2 (9 / 8) \<noteq> 9 / 8" by (simp add: fl_eval)
  show "py_round2 (7 / 8) \<noteq> 7 / 8" by (simp add: fl_eval)
qed (rule not_hundredth_9_8 not_hundredth_7_8)+

lemma addInvestmentEarnings_fund:
  "sampling_error (vol f) = None \<Longrightarrow>
   snd (addInvestmentEarnings f e b ot)
     = f\<lparr> equity := py_round2 (fmul (equity f) (fadd 1 e)),
          bonds := py_round2 (fmul (bonds f) (fadd 1 b)),
          other := py_round2 (fmul (other f) (fadd 1 ot)) \<rparr>"
  by (simp add: addInvestmentEarnings_def py_div_def Let_def)

lemma payBenefits_cases:
  "payBenefits f a =
     (if 0 \<le> fadd (fadd (equity (payBenefits_withdraw f a)) (bonds (payBenefits_withdraw f a)))
                    (other (payBenefits_withdraw f a))
      then (0, payBenefits_withdraw f a)
      else (fst (payGo (payBenefits_withdraw f a)),
            (payBenefits_withdraw f a)
              \<lparr> equity := max (equity (payBenefits_withdraw f a)) 0,
                bonds := max (bonds (payBenefits_withdraw f a)) 0,
                other := max (other (payBenefits_withdraw f a)) 0 \<rparr>))"
  by (simp add: payBenefits_def payGo_def Let_def)

text \<open>
  C2, amended. Construction and \<open>addInvestmentEarnings\<close> (once its sampling calls have
  returned) leave each of the three balances rounded to 2 decimal places right after the
  multiplication that produced it: the balance is \<open>round(product, 2)\<close>, the float nearest
  to a number of hundredths. \<open>addPremiums\<close> stores the sum \<open>balance + share * amount\<close>
  as the float addition gives it, unrounded. \<open>payBenefits\<close> computes the difference
  \<open>balance - share * amount\<close>, unrounded, and stores it, or stores 0 in place of a
  negative difference when the three differences sum to less than 0. The share is the
  balance divided by the total, or the static fraction when the total is 0.
\<close>

theorem rounding_policy:
  "equity (pensFund_init a y v pe pb po) = py_round2 (fmul pe a) \<and>
   bonds (pensFund_init a y v pe pb po) = py_round2 (fmul pb a) \<and>
   other (pensFund_init a y v pe pb po) = py_round2 (fmul po a) \<and>
   (\<exists>k. equity (pensFund_init a y v pe pb po) = fl (of_int k / 100)) \<and>
   (\<exists>k. bonds (pensFund_init a y v pe pb po) = fl (of_int k / 100)) \<and>
   (\<exists>k. other (pensFund_init a y v pe pb po) = fl (of_int k / 100)) \<and>
   (sampling_error (vol f) = None \<longrightarrow>
      equity (snd (addInvestmentEarnings f e b ot)) = py_round2 (fmul (equity f) (fadd 1 e)) \<and>
      bonds (snd (addInvestmentEarnings f e b ot)) = py_round2 (fmul (bonds f) (fadd 1 b)) \<and>
      other (snd (addInvestmentEarnings f e b ot)) = py_round2 (fmul (other f) (fadd 1 ot)) \<and>
      (\<exists>k. equity (snd (addInvestmentEarnings f e b ot)) = fl (of_int k / 100)) \<and>
      (\<exists>k. bonds (snd (addInvestmentEarnings f e b ot)) = fl (of_int k / 100)) \<and>
      (\<exists>k. other (snd (addInvestmentEarnings f e b ot)) = fl (of_int k / 100))) \<and>
   equity (addPremiums f a)
     = fadd (equity f)
         (fmul (if fadd (fadd (equity f) (bonds f)) (other f) = 0 then fst (pcts f)
                else fquot (equity f) (fadd (fadd (equity f) (bonds f)) (other f))) a) \<and>
   bonds (addPremiums f a)
     = fadd (bonds f)
         (fmul (if fadd (fadd (equity f) (bonds f)) (other f) = 0 then fst (snd (pcts f))
                else fquot (bonds f) (fadd (fadd (equity f) (bonds f)) (other f))) a) \<and>
   other (addPremiums f a)
     = fadd (other f)
         (fmul (if fadd (fadd (equity f) (bonds f)) (other f) = 0 then snd (snd (pcts f))
                else fquot (other f) (fadd (fadd (equity f) (bonds f)) (other f))) a) \<and>
   equity (payBenefits_withdraw f a)
     = fsub (equity f)
         (fmul (if fadd (fadd (equity f) (bonds f)) (other f) = 0 then fst (pcts f)
                else fquot (equity f) (fadd (fadd (equity f) (bonds f)) (other f))) a) \<and>
   bonds (payBenefits_withdraw f a)
     = fsub (bonds f)
         (fmul (if fadd (fadd (equity f) (bonds f)) (other f) = 0 then fst (snd (pcts f))
                else fquot (bonds f) (fadd (fadd (equity f) (bonds f)) (other f))) a) \<and>
   other (payBenefits_withdraw f a)
     = fsub (other f)
         (fmul (if fadd (fadd (equity f) (bonds f)) (other f) = 0 then snd (snd (pcts f))
                else fquot (other f) (fadd (fadd (equity f) (bonds f)) (other f))) a) \<and>
   equity (snd (payBenefits f a))
     = (if 0 \<le> fadd (fadd (equity (payBenefits_withdraw f a)) (bonds (payBenefits_withdraw f a)))
                     (other (payBenefits_withdraw f a))
        then equity (payBenefits_withdraw f a)
        else max (equity (payBenefits_withdraw f a)) 0) \<and>
   bonds (snd (payBenefits f a))
     = (if 0 \<le> fadd (fadd (equity (payBenefits_withdraw f a)) (bonds (payBenefits_withdraw f a)))
                     (other (payBenefits_withdraw f a))
        then bonds (payBenefits_withdraw f a)
        else max (bonds (payBenefits_withdraw f a)) 0) \<and>
   other (snd (payBenefits f a))
     = (if 0 \<le> fadd (fadd (equity (payBenefits_withdraw f a)) (bonds (payBenefits_withdraw f a)))
                     (other (payBenefits_withdraw f a))
        then other (payBenefits_withdraw f a)
        else max (other (payBenefits_withdraw f a)) 0)"
proof -
  have i: "equity (pensFund_init a y v pe pb po) = py_round2 (fmul pe a) \<and>
   bonds (pensFund_init a y v pe pb po) = py_round2 (fmul pb a) \<and>
   other (pensFund_init a y v pe pb po) = py_round2 (fmul po a)"
    by (simp add: pensFund_init_def Let_def)
  have p: "equity (addPremiums f a)
     = fadd (equity f)
         (fmul (if fadd (fadd (equity f) (bonds f)) (other f) = 0 then fst (pcts f)
                else fquot (equity f) (fadd (fadd (equity f) (bonds f)) (other f))) a) \<and>
   bonds (addPremiums f a)
     = fadd (bonds f)
         (fmul (if fadd (fadd (equity f) (bonds f)) (other f) = 0 then fst (snd (pcts f))
                else fquot (bonds f) (fadd (fadd (equity f) (bonds f)) (other f))) a) \<and>
   other (addPremiums f a)
     = fadd (other f)
         (fmul (if fadd (fadd (equity f) (bonds f)) (other f) = 0 then snd (snd (pcts f))
                else fquot (other f) (fadd (fadd (equity f) (bonds f)) (other f))) a)"
    by (simp add: addPremiums_def Let_def)
  have w: "equity (payBenefits_withdraw f a)
     = fsub (equity f)
         (fmul (if fadd (fadd (equity f) (bonds f)) (other f) = 0 then fst (pcts f)
                else fquot (equity f) (fadd (fadd (equity f) (bonds f)) (other f))) a) \<and>
   bonds (payBenefits_withdraw f a)
     = fsub (bonds f)
         (fmul (if fadd (fadd (equity f) (bonds f)) (other f) = 0 then fst (snd (pcts f))
                else fquot (bonds f) (fadd (fadd (equity f) (bonds f)) (other f))) a) \<and>
   other (payBenefits_withdraw f a)
     = fsub (other f)
         (fmul (if fadd (fadd (equity f) (bonds f)) (other f) = 0 then snd (snd (pcts f))
                else fquot (other f) (fadd (fadd (equity f) (bonds f)) (other f))) a)"
    by (simp add: payBenefits_withdraw_def Let_def)
  have g: "equity (snd (payBenefits f a))
     = (if 0 \<le> fadd (fadd (equity (payBenefits_withdraw f a)) (bonds (payBenefits_withdraw f a)))
                     (other (payBenefits_withdraw f a))
        then equity (payBenefits_withdraw f a)
        else max (equity (payBenefits_withdraw f a)) 0) \<and>
   bonds (snd (payBenefits f a))
     = (if 0 \<le> fadd (fadd (equity (payBenefits_withdraw f a)) (bonds (payBenefits_withdraw f a)))
                     (other (payBenefits_withdraw f a))
        then bonds (payBenefits_withdraw f a)
        else max (bonds (payBenefits_withdraw f a)) 0) \<and>
   other (snd (payBenefits f a))
     = (if 0 \<le> fadd (fadd (equity (payBenefits_withdraw f a)) (bonds (payBenefits_withdraw f a)))
                     (other (payBenefits_withdraw f a))
        then other (payBenefits_withdraw f a)
        else max (other (payBenefits_withdraw f a)) 0)"
    by (simp add: payBenefits_cases)
  have s: "sampling_error (vol f) = None \<longrightarrow>
      equity (snd (addInvestmentEarnings f e b ot)) = py_round2 (fmul (equity f) (fadd 1 e)) \<and>
      bonds (snd (addInvestmentEarnings f e b ot)) = py_round2 (fmul (bonds f) (fadd 1 b)) \<and>
      other (snd (addInvestmentEarnings f e b ot)) = py_round2 (fmul (other f) (fadd 1 ot))"
    by (simp add: addInvestmentEarnings_fund)
  from i p w g s show ?thesis
    by (simp add: py_round2_hundredth)
qed

theorem rounding_policy_witness:
  "sampling_error test_vol = None
   \<and> equity (pensFund_init (100125 / 100) 2020 test_vol (fl (6 / 10)) (fl (3 / 10)) (fl (1 / 10)))
       = fl (60075 / 100)
   \<and> bonds (pensFund_init (100125 / 100) 2020 test_vol (fl (6 / 10)) (fl (3 / 10)) (fl (1 / 10)))
       = fl (30038 / 100)
   \<and> other (pensFund_init (100125 / 100) 2020 test_vol (fl (6 / 10)) (fl (3 / 10)) (fl (1 / 10)))
       = fl (10012 / 100)
   \<and> equity (snd (addInvestmentEarnings (fund_with (100025 / 100) 30 10) (fl (6 / 100)) 0 0))
       = fl (106027 / 100)
   \<and> equity (addPremiums (fund_with 1 1 2) (1 / 2)) = 9 / 8
   \<and> equity (snd (payBenefits (fund_with 1 1 2) (1 / 2))) = 7 / 8
   \<and> equity (snd (payBenefits (fund_with 1 1 2) 8)) = 0"
proof -
  note t = rounding_policy [of "100125 / 100" 2020 test_vol "fl (6 / 10)" "fl (3 / 10)" "fl (1 / 10)"
      "fund_with (100025 / 100) 30 10" "fl (6 / 100)" 0 0]
  note u = rounding_policy [of "1 / 2" 2020 test_vol "fl (6 / 10)" "fl (3 / 10)" "fl (1 / 10)"
      "fund_with 1 1 2" 0 0 0]
  note v = rounding_policy [of 8 2020 test_vol "fl (6 / 10)" "fl (3 / 10)" "fl (1 / 10)"
      "fund_with 1 1 2" 0 0 0]
  have a: "py_round2 (fmul (fl (6 / 10)) (100125 / 100)) = fl (60075 / 100)"
          "py_round2 (fmul (fl (3 / 10)) (100125 / 100)) = fl (30038 / 100)"
          "py_round2 (fmul (fl (1 / 10)) (100125 / 100)) = fl (10012 / 100)"
          "py_round2 (fmul (100025 / 100) (fadd 1 (fl (6 / 100)))) = fl (106027 / 100)"
    by (simp_all add: fl_eval)
  have b: "fadd (fadd 1 1) 2 = 4" "fadd 1 (fmul (fquot 1 4) (1 / 2)) = 9 / 8"
          "fsub 1 (fmul (fquot 1 4) (1 / 2)) = 7 / 8" "fsub 2 (fmul (fquot 2 4) (1 / 2)) = 7 / 4"
          "fadd (fadd (7 / 8) (7 / 8)) (7 / 4) = 7 / 2"
          "fsub 1 (fmul (fquot 1 4) 8) = - 1" "fsub 2 (fmul (fquot 2 4) 8) = - 2"
          "fadd (fadd (- 1) (- 1)) (- 2) = - 4"
    by (simp_all add: fl_eval)
  from t a sampling_test_vol have c:
    "equity (pensFund_init (100125 / 100) 2020 test_vol (fl (6 / 10)) (fl (3 / 10)) (fl (1 / 10)))
       = fl (60075 / 100)
     \<and> bonds (pensFund_init (100125 / 100) 2020 test_vol (fl (6 / 10)) (fl (3 / 10)) (fl (1 / 10)))
       = fl (30038 / 100)
     \<and> other (pensFund_init (100125 / 100) 2020 test_vol (fl (6 / 10)) (fl (3 / 10)) (fl (1 / 10)))
       = fl (10012 / 100)
     \<and> equity (snd (addInvestmentEarnings (fund_with (100025 / 100) 30 10) (fl (6 / 100)) 0 0))
       = fl (106027 / 100)"
    by simp
  from u b have d: "equity (addPremiums (fund_with 1 1 2) (1 / 2)) = 9 / 8
     \<and> equity (snd (payBenefits (fund_with 1 1 2) (1 / 2))) = 7 / 8"
    by simp
  from v b have e: "equity (snd (payBenefits (fund_with 1 1 2) 8)) = 0"
    by simp
  from sampling_test_vol c d e show ?thesis by blast
qed

section \<open>Premiums and benefits\<close>

text \<open>
  C5, as the spec states it, fails for \<open>payBenefits\<close>: a benefit of 256 paid from the
  balances (64, 32, 32) would take 128 from equity by its share of one half, leaving
  -64; the fund holds 0 in equity afterwards, because \<open>payBenefits\<close> ends with \<open>payGo\<close>.
\<close>

theorem payBenefits_share_counterexample:
  "fadd (fadd 64 32) 32 = 128 \<and>
   fsub 64 (fmul (fquot 64 128) 256) = - 64 \<and>
   payBenefits (fund_with 64 32 32) 256
     = (128, fund_with 64 32 32 \<lparr> equity := 0, bonds := 0, other := 0 \<rparr>)"
  by (simp add: payBenefits_def payBenefits_withdraw_def payGo_def fl_eval)

text \<open>
  C5, amended. For a fund whose total is positive, \<open>addPremiums\<close> adds to each balance
  its share of the total (the balance divided by the total, not the static allocation)
  times the amount, and \<open>payBenefits\<close> first subtracts it, all in float arithmetic; for
  a fund whose total is 0 the static allocation fraction takes the place of the share.
  \<open>payBenefits\<close> then applies \<open>payGo\<close> to the fund so changed: when the three
  differences sum to 0 or more they are the final balances and 0 is returned, otherwise
  every negative difference is replaced by 0. Whether the sum of the differences is
  negative is decided by the float operations, not by comparing the amount with the
  total: paying 25 out of (1, 7, 17) leaves a float residue and returns \<open>2 ^ -50\<close>.
\<close>

theorem proportional_distribution:
  "(0 < fadd (fadd (equity f) (bonds f)) (other f) \<longrightarrow>
      addPremiums f a =
        f\<lparr> equity := fadd (equity f)
                         (fmul (fquot (equity f) (fadd (fadd (equity f) (bonds f)) (other f))) a),
           bonds := fadd (bonds f)
                         (fmul (fquot (bonds f) (fadd (fadd (equity f) (bonds f)) (other f))) a),
           other := fadd (other f)
                         (fmul (fquot (other f) (fadd (fadd (equity f) (bonds f)) (other f))) a) \<rparr> \<and>
      payBenefits_withdraw f a =
        f\<lparr> equity := fsub (equity f)
                         (fmul (fquot (equity f) (fadd (fadd (equity f) (bonds f)) (other f))) a),
           bonds := fsub (bonds f)
                         (fmul (fquot (bonds f) (fadd (fadd (equity f) (bonds f)) (other f))) a),
           other := fsub (other f)
                         (fmul (fquot (other f) (fadd (fadd (equity f) (bonds f)) (other f))) a) \<rparr>) \<and>
   (fadd (fadd (equity f) (bonds f)) (other f) = 0 \<longrightarrow>
      addPremiums f a =
        f\<lparr> equity := fadd (equity f) (fmul (fst (pcts f)) a),
           bonds := fadd (bonds f) (fmul (fst (snd (pcts f))) a),
           other := fadd (other f) (fmul (snd (snd (pcts f))) a) \<rparr> \<and>
      payBenefits_withdraw f a =
        f\<lparr> equity := fsub (equity f) (fmul (fst (pcts f)) a),
           bonds := fsub (bonds f) (fmul (fst (snd (pcts f))) a),
           other := fsub (other f) (fmul (snd (snd (pcts f))) a) \<rparr>) \<and>
   payBenefits f a = payGo (payBenefits_withdraw f a) \<and>
   (0 \<le> fadd (fadd (equity (payBenefits_withdraw f a)) (bonds (payBenefits_withdraw f a)))
              (other (payBenefits_withdraw f a)) \<longrightarrow>
      payBenefits f a = (0, payBenefits_withdraw f a)) \<and>
   (fadd (fadd (equity (payBenefits_withdraw f a)) (bonds (payBenefits_withdraw f a)))
         (other (payBenefits_withdraw f a)) < 0 \<longrightarrow>
      snd (payBenefits f a) =
        (payBenefits_withdraw f a)
          \<lparr> equity := max (equity (payBenefits_withdraw f a)) 0,
            bonds := max (bonds (payBenefits_withdraw f a)) 0,
            other := max (other (payBenefits_withdraw f a)) 0 \<rparr>)"
proof (intro conjI impI)
  show "payBenefits f a = payGo (payBenefits_withdraw f a)"
    by (rule payBenefits_def)
next
  assume "0 \<le> fadd (fadd (equity (payBenefits_withdraw f a)) (bonds (payBenefits_withdraw f a)))
              (other (payBenefits_withdraw f a))"
  then show "payBenefits f a = (0, payBenefits_withdraw f a)"
    by (simp add: payBenefits_cases)
next
  assume "fadd (fadd (equity (payBenefits_withdraw f a)) (bonds (payBenefits_withdraw f a)))
         (other (payBenefits_withdraw f a)) < 0"
  then show "snd (payBenefits f a) =
        (payBenefits_withdraw f a)
          \<lparr> equity := max (equity (payBenefits_withdraw f a)) 0,
            bonds := max (bonds (payBenefits_withdraw f a)) 0,
            other := max (other (payBenefits_withdraw f a)) 0 \<rparr>"
    by (simp add: payBenefits_cases)
qed (simp_all add: addPremiums_def payBenefits_withdraw_def Let_def)

theorem proportional_distribution_witness:
  "0 < fadd (fadd 64 32) 32
   \<and> addPremiums (fund_with 64 32 32) 16
       = fund_with 64 32 32 \<lparr> equity := 72, bonds := 36, other := 36 \<rparr>
   \<and> payBenefits (fund_with 64 32 32) 16
       = (0, fund_with 64 32 32 \<lparr> equity := 56, bonds := 28, other := 28 \<rparr>)
   \<and> snd (payBenefits (fund_with 64 32 32) 256)
       = fund_with 64 32 32 \<lparr> equity := 0, bonds := 0, other := 0 \<rparr>
   \<and> fadd (fadd 0 0) 0 = 0
   \<and> addPremiums (fund_with 0 0 0) 50
       = fund_with 0 0 0 \<lparr> equity := 30, bonds := 15, other := 5 \<rparr>
   \<and> payBenefits (fund_with 1 7 17) 25
       = (1 / 2 ^ 50, fund_with 1 7 17 \<lparr> equity := 0, bonds := 0, other := 0 \<rparr>)"
proof -
  have h: "0 < fadd (fadd (equity (fund_with 64 32 32)) (bonds (fund_with 64 32 32)))
                   (other (fund_with 64 32 32))"
    by (simp add: fl_eval)
  have z: "fadd (fadd (equity (fund_with 0 0 0)) (bonds (fund_with 0 0 0)))
                (other (fund_with 0 0 0)) = 0"
    by (simp add: fl_eval)
  note t16 = proportional_distribution [of "fund_with 64 32 32" 16]
  note t256 = proportional_distribution [of "fund_with 64 32 32" 256]
  note t0 = proportional_distribution [of "fund_with 0 0 0" 50]
  have a: "addPremiums (fund_with 64 32 32) 16
       = fund_with 64 32 32 \<lparr> equity := 72, bonds := 36, other := 36 \<rparr>"
    using t16 [THEN conjunct1, THEN mp, OF h, THEN conjunct1] by (simp add: fl_eval)
  have w16: "payBenefits_withdraw (fund_with 64 32 32) 16
       = fund_with 64 32 32 \<lparr> equity := 56, bonds := 28, other := 28 \<rparr>"
    using t16 [THEN conjunct1, THEN mp, OF h, THEN conjunct2] by (simp add: fl_eval)
  have w256: "payBenefits_withdraw (fund_with 64 32 32) 256
       = fund_with 64 32 32 \<lparr> equity := - 64, bonds := - 32, other := - 32 \<rparr>"
    using t256 [THEN conjunct1, THEN mp, OF h, THEN conjunct2] by (simp add: fl_eval)
  have s16: "0 \<le> fadd (fadd (equity (payBenefits_withdraw (fund_with 64 32 32) 16))
                           (bonds (payBenefits_withdraw (fund_with 64 32 32) 16)))
                     (other (payBenefits_withdraw (fund_with 64 32 32) 16))"
    by (simp add: w16) (simp add: fl_eval)
  have s256: "fadd (fadd (equity (payBenefits_withdraw (fund_with 64 32 32) 256))
                         (bonds (payBenefits_withdraw (fund_with 64 32 32) 256)))
                   (other (payBenefits_withdraw (fund_with 64 32 32) 256)) < 0"
    by (simp add: w256) (simp add: fl_eval)
  have b: "payBenefits (fund_with 64 32 32) 16
       = (0, fund_with 64 32 32 \<lparr> equity := 56, bonds := 28, other := 28 \<rparr>)"
    using t16 [THEN conjunct2, THEN conjunct2, THEN conjunct2, THEN conjunct1, THEN mp, OF s16]
    by (simp add: w16)
  have c: "snd (payBenefits (fund_with 64 32 32) 256)
       = fund_with 64 32 32 \<lparr> equity := 0, bonds := 0, other := 0 \<rparr>"
    using t256 [THEN conjunct2, THEN conjunct2, THEN conjunct2, THEN conjunct2, THEN mp, OF s256]
    by (simp add: w256)
  have d: "addPremiums (fund_with 0 0 0) 50
       = fund_with 0 0 0 \<lparr> equity := 30, bonds := 15, other := 5 \<rparr>"
    using t0 [THEN conjunct2, THEN conjunct1, THEN mp, OF z, THEN conjunct1]
    by (simp add: default_pcts_def fl_eval)
  have e: "payBenefits (fund_with 1 7 17) 25
       = (1 / 2 ^ 50, fund_with 1 7 17 \<lparr> equity := 0, bonds := 0, other := 0 \<rparr>)"
    by (simp add: payBenefits_def payBenefits_withdraw_def payGo_def fl_eval)
  have h': "0 < fadd (fadd 64 32) 32" and z': "fadd (fadd 0 0) 0 = 0"
    by (simp_all add: fl_eval)
  from h' a b c z' d e show ?thesis by blast
qed

section \<open>Investment earnings\<close>

text \<open>
  C9, as stated, fails on a fund whose volatility list is too short: the first sampling
  call raises \<open>IndexError\<close>, although the balances sum to 140.
\<close>

theorem earnings_sampling_counterexample:
  "fadd (fadd 100 30) 10 = 140 \<and>
   addInvestmentEarnings (fund_with 100 30 10 \<lparr> vol := [] \<rparr>) 0 0 0
     = (Inl IndexError, fund_with 100 30 10 \<lparr> vol := [] \<rparr>)"
  by (simp add: addInvestmentEarnings_def sampling_error_def fl_eval)

text \<open>
  C9, amended. On a fund whose volatility list has its six entries, the three standard
  deviations not negative: when the float sum \<open>A\<close> of the three balances is 0,
  \<open>addInvestmentEarnings\<close> fails with \<open>ZeroDivisionError\<close> instead of returning a pair;
  otherwise it returns \<open>r = (newTotal - A) / A\<close> and \<open>A\<close>, where \<open>newTotal\<close> is the
  float sum of the rounded balances. Either way the fund is left with the rounded
  balances.
\<close>

theorem addInvestmentEarnings_division:
  "6 \<le> length (vol f) \<Longrightarrow> 0 \<le> vol f ! 1 \<Longrightarrow> 0 \<le> vol f ! 3 \<Longrightarrow> 0 \<le> vol f ! 5 \<Longrightarrow>
   (fadd (fadd (equity f) (bonds f)) (other f) = 0 \<longrightarrow>
      fst (addInvestmentEarnings f e b ot) = Inl ZeroDivisionError) \<and>
   (fadd (fadd (equity f) (bonds f)) (other f) \<noteq> 0 \<longrightarrow>
      fst (addInvestmentEarnings f e b ot) =
        Inr (fquot (fsub (fadd (fadd (py_round2 (fmul (equity f) (fadd 1 e)))
                                     (py_round2 (fmul (bonds f) (fadd 1 b))))
                               (py_round2 (fmul (other f) (fadd 1 ot))))
                         (fadd (fadd (equity f) (bonds f)) (other f)))
                   (fadd (fadd (equity f) (bonds f)) (other f)),
             fadd (fadd (equity f) (bonds f)) (other f))) \<and>
   snd (addInvestmentEarnings f e b ot)
     = f\<lparr> equity := py_round2 (fmul (equity f) (fadd 1 e)),
          bonds := py_round2 (fmul (bonds f) (fadd 1 b)),
          other := py_round2 (fmul (other f) (fadd 1 ot)) \<rparr>"
  by (simp add: addInvestmentEarnings_def sampling_error_def py_div_def Let_def)

theorem addInvestmentEarnings_division_witness:
  "6 \<le> length test_vol \<and> 0 \<le> test_vol ! 1 \<and> 0 \<le> test_vol ! 3 \<and> 0 \<le> test_vol ! 5
   \<and> fadd (fadd (- 40) 30) 10 = 0
   \<and> fst (addInvestmentEarnings (fund_with (- 40) 30 10) 1 0 0) = Inl ZeroDivisionError
   \<and> snd (addInvestmentEarnings (fund_with (- 40) 30 10) 1 0 0)
       = fund_with (- 40) 30 10 \<lparr> equity := - 80 \<rparr>
   \<and> fadd (fadd 100 30) 10 \<noteq> 0
   \<and> addInvestmentEarnings (fund_with 100 30 10) 1 0 0
       = (Inr (fl (5 / 7), 140), fund_with 100 30 10 \<lparr> equity := 200 \<rparr>)
   \<and> addInvestmentEarnings (fund_with (100025 / 100) 0 0) (fl (6 / 100)) 0 0
       = (Inr (8647631680392769 / 144115188075855872, 100025 / 100),
          fund_with (100025 / 100) 0 0 \<lparr> equity := fl (106027 / 100) \<rparr>)"
proof -
  have v: "6 \<le> length test_vol" "0 \<le> test_vol ! 1" "0 \<le> test_vol ! 3" "0 \<le> test_vol ! 5"
    by (simp_all add: test_vol_def fl_eval)
  have v1: "6 \<le> length (vol (fund_with (- 40) 30 10))"
           "0 \<le> vol (fund_with (- 40) 30 10) ! 1"
           "0 \<le> vol (fund_with (- 40) 30 10) ! 3"
           "0 \<le> vol (fund_with (- 40) 30 10) ! 5"
    using v by simp_all
  have v2: "6 \<le> length (vol (fund_with 100 30 10))"
           "0 \<le> vol (fund_with 100 30 10) ! 1"
           "0 \<le> vol (fund_with 100 30 10) ! 3"
           "0 \<le> vol (fund_with 100 30 10) ! 5"
    using v by simp_all
  note t1 = addInvestmentEarnings_division [OF v1, of 1 0 0]
  note t2 = addInvestmentEarnings_division [OF v2, of 1 0 0]
  have a1: "fadd (fadd (equity (fund_with (- 40) 30 10)) (bonds (fund_with (- 40) 30 10)))
                 (other (fund_with (- 40) 30 10)) = 0"
    by (simp add: fl_eval)
  have a2: "fadd (fadd (equity (fund_with 100 30 10)) (bonds (fund_with 100 30 10)))
                 (other (fund_with 100 30 10)) \<noteq> 0"
    by (simp add: fl_eval)
  have d1: "fst (addInvestmentEarnings (fund_with (- 40) 30 10) 1 0 0) = Inl ZeroDivisionError"
    using t1 [THEN conjunct1, THEN mp, OF a1] .
  have d2: "snd (addInvestmentEarnings (fund_with (- 40) 30 10) 1 0 0)
       = fund_with (- 40) 30 10 \<lparr> equity := - 80 \<rparr>"
    using t1 [THEN conjunct2, THEN conjunct2] by (simp add: fl_eval)
  have e1: "fst (addInvestmentEarnings (fund_with 100 30 10) 1 0 0) = Inr (fl (5 / 7), 140)"
    using t2 [THEN conjunct2, THEN conjunct1, THEN mp, OF a2] by (simp add: fl_eval)
  have e2: "snd (addInvestmentEarnings (fund_with 100 30 10) 1 0 0)
       = fund_with 100 30 10 \<lparr> equity := 200 \<rparr>"
    using t2 [THEN conjunct2, THEN conjunct2] by (simp add: fl_eval)
  from e1 e2 have e: "addInvestmentEarnings (fund_with 100 30 10) 1 0 0
       = (Inr (fl (5 / 7), 140), fund_with 100 30 10 \<lparr> equity := 200 \<rparr>)"
    by (simp add: prod_eq_iff)
  have g: "addInvestmentEarnings (fund_with (100025 / 100) 0 0) (fl (6 / 100)) 0 0
       = (Inr (8647631680392769 / 144115188075855872, 100025 / 100),
          fund_with (100025 / 100) 0 0 \<lparr> equity := fl (106027 / 100) \<rparr>)"
    by (simp add: addInvestmentEarnings_def sampling_test_vol fl_eval)
  have a1': "fadd (fadd (- 40) 30) 10 = 0" and a2': "fadd (fadd 100 30) 10 \<noteq> 0"
    by (simp_all add: fl_eval)
  from v a1' d1 d2 a2' e g show ?thesis by blast
qed

section \<open>The yearly step\<close>

text \<open>
  What \<open>payGo\<close>, and so \<open>payBenefits\<close>, leaves behind: an amount that is not
  negative and balances whose float sum is not negative.
\<close>

lemma payGo_post:
  "0 \<le> fst (payGo f) \<and>
   0 \<le> fadd (fadd (equity (snd (payGo f))) (bonds (snd (payGo f)))) (other (snd (payGo f)))"
proof (cases "0 \<le> fadd (fadd (equity f) (bonds f)) (other f)")
  case True
  then show ?thesis by (simp add: payGo_def)
next
  case False
  have a: "0 \<le> fst (payGo f)"
    using False
    by (auto simp add: payGo_def Let_def fsub_def intro!: fl_nonneg)
       (smt (verit) fl_nonneg)+
  have b: "0 \<le> fadd (fadd (max (equity f) 0) (max (bonds f) 0)) (max (other f) 0)"
    unfolding fadd_def by (intro fl_nonneg add_nonneg_nonneg) simp_all
  from a b False show ?thesis by (simp add: payGo_def Let_def)
qed

lemma payBenefits_post:
  "0 \<le> fst (payBenefits f a) \<and>
   0 \<le> fadd (fadd (equity (snd (payBenefits f a))) (bonds (snd (payBenefits f a))))
              (other (snd (payBenefits f a)))"
  unfolding payBenefits_def by (rule payGo_post)

text \<open>
  The two rates by cases, and the yearly step once the earnings step has returned.
\<close>

lemma advanceOneYear_cr_cases:
  "advanceOneYear_cr g nc pg tp =
     (if g \<noteq> 0 then (if tp = 0 then Inl ZeroDivisionError
                      else Inr (fquot (fadd nc pg) (fmul tp (fl (of_int g)))))
      else if tp = 0 then Inr 0 else Inr (fquot (fadd nc pg) tp))"
  by (simp add: advanceOneYear_cr_def py_div_def fmul_def fl_eq_0_iff)

lemma advanceOneYear_growthRate_cases:
  "advanceOneYear_growthRate u n l =
     (if u \<noteq> 0 then Inr (py_round2 (fquot (fmul (fsub n u) 100) u))
      else if n \<noteq> 0 then (if l = 0 then Inl ZeroDivisionError
                            else Inr (py_round2 (fquot (fmul n 100) l)))
      else Inr (py_round2 0))"
  by (simp add: advanceOneYear_growthRate_def py_div_def)

lemma advanceOneYear_steps:
  assumes ae: "addInvestmentEarnings (fund p) e b ot = (Inr (ret, A), f1)"
    and nc: "nc = fsub (py_round2 (totalLiability pop)) (liability p)"
    and pb: "payBenefits (addPremiums f1 (fmul (pr p) nc)) (info_benefit pop) = (s, f3)"
    and p3: "p3 = p\<lparr> currentYear := pensPlan.currentYear p + 1,
                      liability := py_round2 (totalLiability pop),
                      totalPay := py_round2 (totalSalary pop),
                      r := py_round2 (fmul ret 100),
                      payGo := py_round2 s,
                      fund := updateLedger f3 (pensPlan.currentYear p + 1),
                      assets := fadd (fadd (equity f3) (bonds f3)) (other f3),
                      instability :=
                        fsub (fadd (fmul (pr p) nc)
                                   (fmul (discountRate p) (py_round2 (totalLiability pop))))
                             (fadd (fmul ret A) nc) \<rparr>"
    and nu: "newUAL = max (fsub (fsub (py_round2 (totalLiability pop))
                                      (fadd (fadd (equity f3) (bonds f3)) (other f3)))
                                (py_round2 s)) 0"
  shows "advanceOneYear p pop e b ot =
     (case advanceOneYear_cr (int (activeAfter pop) - int (activeBefore pop)) nc (py_round2 s)
             (py_round2 (totalSalary pop)) of
        Inl err \<Rightarrow> (Some err, p3)
      | Inr cr' \<Rightarrow>
          (case advanceOneYear_growthRate (ual p) newUAL (py_round2 (totalLiability pop)) of
             Inl err \<Rightarrow> (Some err, p3\<lparr> cr := cr' \<rparr>)
           | Inr g \<Rightarrow> (None, p3\<lparr> cr := cr', growthRate := g, ual := newUAL \<rparr>)))"
  using ae pb unfolding nc p3 nu
  by (simp add: advanceOneYear_def Let_def updateLedger_def split: sum.split)

lemma advanceOneYear_fails_early:
  "addInvestmentEarnings (fund p) e b ot = (Inl err, f1) \<Longrightarrow>
   advanceOneYear p pop e b ot
     = (Some err, p\<lparr> currentYear := pensPlan.currentYear p + 1,
                      liability := py_round2 (totalLiability pop),
                      totalPay := py_round2 (totalSalary pop),
                      fund := f1 \<rparr>)"
  by (simp add: advanceOneYear_def Let_def)

lemma earnings_total:
  "fst (addInvestmentEarnings f e b ot) = Inr (ret, A) \<Longrightarrow>
   A = fadd (fadd (equity f) (bonds f)) (other f) \<and> A \<noteq> 0 \<and> sampling_error (vol f) = None"
  by (auto simp add: addInvestmentEarnings_def py_div_def Let_def
        split: option.splits if_splits)

text \<open>
  C3. The contribution rate of lines 83-90: with \<open>popGrowth\<close> not 0 the quotient
  \<open>(normalCost + payGo) / (totalPay * popGrowth)\<close> is computed outside any \<open>try\<close>, so a
  total pay of 0 raises \<open>ZeroDivisionError\<close> there and \<open>advanceOneYear\<close> fails, with the
  fund already changed and recorded for the new year; with \<open>popGrowth = 0\<close> the rate is
  \<open>(normalCost + payGo) / totalPay\<close>, or 0 when the total pay is 0.
\<close>

theorem contribution_rate_unguarded:
  "advanceOneYear_cr g nc pg tp =
     (if g \<noteq> 0 then (if tp = 0 then Inl ZeroDivisionError
                      else Inr (fquot (fadd nc pg) (fmul tp (fl (of_int g)))))
      else if tp = 0 then Inr 0 else Inr (fquot (fadd nc pg) tp)) \<and>
   advanceOneYear_cr 2 103 0 0 = Inl ZeroDivisionError \<and>
   fst (advanceOneYear (plan_with (fund_with 600 300 100) 1500 500 1000)
         \<lparr> info_benefit = 103, activeBefore = 10, activeAfter = 12,
           totalLiability = 1603, totalSalary = 0 \<rparr> (fl (5 / 100)) 0 0)
     = Some ZeroDivisionError \<and>
   snd (advanceOneYear (plan_with (fund_with 600 300 100) 1500 500 1000)
         \<lparr> info_benefit = 103, activeBefore = 10, activeAfter = 12,
           totalLiability = 1603, totalSalary = 0 \<rparr> (fl (5 / 100)) 0 0)
     = plan_with (fund_with 600 300 100) 1500 500 1000
         \<lparr> currentYear := 2021, liability := 1603, totalPay := 0, r := 3, payGo := 0,
           fund := updateLedger (fund_with 600 300 100 \<lparr> equity := 630 \<rparr>) 2021,
           assets := 1030,
           instability := fsub (fadd 103 (fmul default_discountRate 1603))
                               (fadd (fmul (fl (3 / 100)) 1000) 103) \<rparr>"
proof -
  have ae: "addInvestmentEarnings (fund (plan_with (fund_with 600 300 100) 1500 500 1000))
              (fl (5 / 100)) 0 0
            = (Inr (fl (3 / 100), 1000), fund_with 600 300 100 \<lparr> equity := 630 \<rparr>)"
    by (simp add: addInvestmentEarnings_def sampling_test_vol fl_eval)
  have nc: "103 = fsub (py_round2 (totalLiability
                \<lparr> info_benefit = 103, activeBefore = 10, activeAfter = 12,
                  totalLiability = 1603, totalSalary = 0 \<rparr>))
              (liability (plan_with (fund_with 600 300 100) 1500 500 1000))"
    by (simp add: fl_eval)
  have pb: "payBenefits (addPremiums (fund_with 600 300 100 \<lparr> equity := 630 \<rparr>)
                (fmul (pr (plan_with (fund_with 600 300 100) 1500 500 1000)) 103))
              (info_benefit \<lparr> info_benefit = 103, activeBefore = 10, activeAfter = 12,
                  totalLiability = 1603, totalSalary = 0 \<rparr>)
            = (0, fund_with 600 300 100 \<lparr> equity := 630 \<rparr>)"
    by (simp add: addPremiums_def payBenefits_def payBenefits_withdraw_def payGo_def fl_eval)
  have c: "advanceOneYear_cr 2 103 0 0 = Inl ZeroDivisionError"
    by (simp add: advanceOneYear_cr_cases)
  have run: "advanceOneYear (plan_with (fund_with 600 300 100) 1500 500 1000)
         \<lparr> info_benefit = 103, activeBefore = 10, activeAfter = 12,
           totalLiability = 1603, totalSalary = 0 \<rparr> (fl (5 / 100)) 0 0
     = (Some ZeroDivisionError,
        plan_with (fund_with 600 300 100) 1500 500 1000
         \<lparr> currentYear := 2021, liability := 1603, totalPay := 0, r := 3, payGo := 0,
           fund := updateLedger (fund_with 600 300 100 \<lparr> equity := 630 \<rparr>) 2021,
           assets := 1030,
           instability := fsub (fadd 103 (fmul default_discountRate 1603))
                               (fadd (fmul (fl (3 / 100)) 1000) 103) \<rparr>)"
    using advanceOneYear_steps [OF ae nc pb refl refl]
    by (simp add: advanceOneYear_cr_cases updateLedger_def)
       (simp add: fl_eval)
  show ?thesis
    by (simp only: run fst_conv snd_conv c advanceOneYear_cr_cases) simp
qed

text \<open>
  Two years run on concrete plans; the second takes both fallbacks.
\<close>

lemma order_year:
  "advanceOneYear (plan_with (fund_with 32 8 8) 1000 500 48)
     \<lparr> info_benefit = 96, activeBefore = 10, activeAfter = 12,
       totalLiability = 1064, totalSalary = 5000 \<rparr> (1 / 2) 0 0
   = (None,
      plan_with (fund_with 32 8 8) 1000 500 48
        \<lparr> currentYear := 2021, liability := 1064, totalPay := 5000, r := fl (3333 / 100),
          payGo := 0,
          fund := updateLedger (fund_with 32 8 8 \<lparr> equity := 24, bonds := 4, other := 4 \<rparr>) 2021,
          assets := 32,
          instability := fsub (fadd 64 (fmul default_discountRate 1064))
                              (fadd (fmul (fl (1 / 3)) 48) 64),
          cr := fl (64 / 10000), growthRate := fl (1064 / 10), ual := 1032 \<rparr>)"
proof -
  have ae: "addInvestmentEarnings (fund (plan_with (fund_with 32 8 8) 1000 500 48)) (1 / 2) 0 0
            = (Inr (fl (1 / 3), 48), fund_with 32 8 8 \<lparr> equity := 48 \<rparr>)"
    by (simp add: addInvestmentEarnings_def sampling_test_vol fl_eval)
  have nc: "64 = fsub (py_round2 (totalLiability
                \<lparr> info_benefit = 96, activeBefore = 10, activeAfter = 12,
                  totalLiability = 1064, totalSalary = 5000 \<rparr>))
              (liability (plan_with (fund_with 32 8 8) 1000 500 48))"
    by (simp add: fl_eval)
  have pb: "payBenefits (addPremiums (fund_with 32 8 8 \<lparr> equity := 48 \<rparr>)
                (fmul (pr (plan_with (fund_with 32 8 8) 1000 500 48)) 64))
              (info_benefit \<lparr> info_benefit = 96, activeBefore = 10, activeAfter = 12,
                  totalLiability = 1064, totalSalary = 5000 \<rparr>)
            = (0, fund_with 32 8 8 \<lparr> equity := 24, bonds := 4, other := 4 \<rparr>)"
    by (simp add: addPremiums_def payBenefits_def payBenefits_withdraw_def payGo_def fl_eval)
  show ?thesis
    using advanceOneYear_steps [OF ae nc pb refl refl]
    by (simp add: advanceOneYear_cr_cases advanceOneYear_growthRate_cases updateLedger_def)
       (simp add: fl_eval)
qed

lemma fallback_year:
  "advanceOneYear (plan_with (fund_with 300 150 50) 1000 0 500)
     \<lparr> info_benefit = 0, activeBefore = 10, activeAfter = 10,
       totalLiability = 1000, totalSalary = 0 \<rparr> 0 0 0
   = (None,
      plan_with (fund_with 300 150 50) 1000 0 500
        \<lparr> currentYear := 2021, liability := 1000, totalPay := 0, r := 0, payGo := 0,
          fund := updateLedger (fund_with 300 150 50) 2021,
          assets := 500, instability := 70, cr := 0, growthRate := 50, ual := 500 \<rparr>)"
proof -
  have ae: "addInvestmentEarnings (fund (plan_with (fund_with 300 150 50) 1000 0 500)) 0 0 0
            = (Inr (0, 500), fund_with 300 150 50)"
    by (simp add: addInvestmentEarnings_def sampling_test_vol fl_eval)
  have nc: "0 = fsub (py_round2 (totalLiability
                \<lparr> info_benefit = 0, activeBefore = 10, activeAfter = 10,
                  totalLiability = 1000, totalSalary = 0 \<rparr>))
              (liability (plan_with (fund_with 300 150 50) 1000 0 500))"
    by (simp add: fl_eval)
  have pb: "payBenefits (addPremiums (fund_with 300 150 50)
                (fmul (pr (plan_with (fund_with 300 150 50) 1000 0 500)) 0))
              (info_benefit \<lparr> info_benefit = 0, activeBefore = 10, activeAfter = 10,
                  totalLiability = 1000, totalSalary = 0 \<rparr>)
            = (0, fund_with 300 150 50)"
    by (simp add: addPremiums_def payBenefits_def payBenefits_withdraw_def payGo_def fl_eval)
  show ?thesis
    using advanceOneYear_steps [OF ae nc pb refl refl]
    by (simp add: advanceOneYear_cr_cases advanceOneYear_growthRate_cases updateLedger_def)
       (simp add: fl_eval default_discountRate_def)
qed

text \<open>
  C6, as the spec states it, fails in two points. The plan does not store the result of
  \<open>payBenefits\<close> as \<open>payGo\<close>, it stores \<open>round(result, 2)\<close> (line 76): a fund with the
  balances (1, 1, 2) that pays a benefit of 4.00390625 returns the shortfall 0.00390625,
  and the plan stores 0. And a call whose earnings step raises, here on the balances
  (-40, 30, 10) that sum to 0, ends there: no premium is added, no benefit paid, nothing
  recorded in the ledger.
\<close>

theorem payGo_stored_rounded_counterexample:
  "fst (payBenefits (addPremiums (fund_with 1 1 2) 0) (1025 / 256)) = 1 / 256 \<and>
   advanceOneYear (plan_with (fund_with 1 1 2) 0 0 4)
     \<lparr> info_benefit = 1025 / 256, activeBefore = 10, activeAfter = 10,
       totalLiability = 0, totalSalary = 0 \<rparr> 0 0 0
   = (None,
      plan_with (fund_with 1 1 2) 0 0 4
        \<lparr> currentYear := 2021, liability := 0, totalPay := 0, r := 0, payGo := 0,
          fund := updateLedger (fund_with 1 1 2 \<lparr> equity := 0, bonds := 0, other := 0 \<rparr>) 2021,
          assets := 0, instability := 0, cr := 0, growthRate := 0, ual := 0 \<rparr>) \<and>
   advanceOneYear (plan_with (fund_with (- 40) 30 10) 1000 500 0)
     \<lparr> info_benefit = 96, activeBefore = 10, activeAfter = 12,
       totalLiability = 1064, totalSalary = 5000 \<rparr> 0 0 0
   = (Some ZeroDivisionError,
      plan_with (fund_with (- 40) 30 10) 1000 500 0
        \<lparr> currentYear := 2021, liability := 1064, totalPay := 5000 \<rparr>)"
proof (intro conjI)
  show "fst (payBenefits (addPremiums (fund_with 1 1 2) 0) (1025 / 256)) = 1 / 256"
    by (simp add: addPremiums_def payBenefits_def payBenefits_withdraw_def payGo_def fl_eval)
next
  have ae: "addInvestmentEarnings (fund (plan_with (fund_with 1 1 2) 0 0 4)) 0 0 0
            = (Inr (0, 4), fund_with 1 1 2)"
    by (simp add: addInvestmentEarnings_def sampling_test_vol fl_eval)
  have nc: "0 = fsub (py_round2 (totalLiability
                \<lparr> info_benefit = 1025 / 256, activeBefore = 10, activeAfter = 10,
                  totalLiability = 0, totalSalary = 0 \<rparr>))
              (liability (plan_with (fund_with 1 1 2) 0 0 4))"
    by (simp add: fl_eval)
  have pb: "payBenefits (addPremiums (fund_with 1 1 2)
                (fmul (pr (plan_with (fund_with 1 1 2) 0 0 4)) 0))
              (info_benefit \<lparr> info_benefit = 1025 / 256, activeBefore = 10, activeAfter = 10,
                  totalLiability = 0, totalSalary = 0 \<rparr>)
            = (1 / 256, fund_with 1 1 2 \<lparr> equity := 0, bonds := 0, other := 0 \<rparr>)"
    by (simp add: addPremiums_def payBenefits_def payBenefits_withdraw_def payGo_def fl_eval)
  show "advanceOneYear (plan_with (fund_with 1 1 2) 0 0 4)
     \<lparr> info_benefit = 1025 / 256, activeBefore = 10, activeAfter = 10,
       totalLiability = 0, totalSalary = 0 \<rparr> 0 0 0
   = (None,
      plan_with (fund_with 1 1 2) 0 0 4
        \<lparr> currentYear := 2021, liability := 0, totalPay := 0, r := 0, payGo := 0,
          fund := updateLedger (fund_with 1 1 2 \<lparr> equity := 0, bonds := 0, other := 0 \<rparr>) 2021,
          assets := 0, instability := 0, cr := 0, growthRate := 0, ual := 0 \<rparr>)"
    using advanceOneYear_steps [OF ae nc pb refl refl]
    by (simp add: advanceOneYear_cr_cases advanceOneYear_growthRate_cases updateLedger_def)
       (simp add: fl_eval)
next
  have ae: "addInvestmentEarnings (fund (plan_with (fund_with (- 40) 30 10) 1000 500 0)) 0 0 0
            = (Inl ZeroDivisionError, fund_with (- 40) 30 10)"
    by (simp add: addInvestmentEarnings_def sampling_test_vol fl_eval)
  show "advanceOneYear (plan_with (fund_with (- 40) 30 10) 1000 500 0)
     \<lparr> info_benefit = 96, activeBefore = 10, activeAfter = 12,
       totalLiability = 1064, totalSalary = 5000 \<rparr> 0 0 0
   = (Some ZeroDivisionError,
      plan_with (fund_with (- 40) 30 10) 1000 500 0
        \<lparr> currentYear := 2021, liability := 1064, totalPay := 5000 \<rparr>)"
    using advanceOneYear_fails_early [OF ae]
    by (simp add: fl_eval)
qed

text \<open>
  C6, amended. In every call of \<open>advanceOneYear\<close> whose earnings step returns its pair,
  the fund operations occur in this order, whether or not the call fails later: the
  earnings step on the plan's fund yields the realized return and the prior assets \<open>A\<close>;
  the contribution \<open>pr * normalCost\<close> is added as premiums to the fund it leaves;
  \<open>payBenefits\<close> is called on that fund with the population's benefit amount, and its
  result, rounded to 2 decimals, is stored as \<open>payGo\<close>; the fund it leaves is recorded in
  the ledger under the incremented year, and the plan's assets are the total of that
  ledger entry.
\<close>

theorem advanceOneYear_order:
  "fst (addInvestmentEarnings (fund p) e b ot) = Inr (ret, A) \<Longrightarrow>
   f1 = snd (addInvestmentEarnings (fund p) e b ot) \<Longrightarrow>
   f2 = addPremiums f1 (fmul (pr p) (fsub (py_round2 (totalLiability pop)) (liability p))) \<Longrightarrow>
   f3 = snd (payBenefits f2 (info_benefit pop)) \<Longrightarrow>
   p' = snd (advanceOneYear p pop e b ot) \<Longrightarrow>
     A = fadd (fadd (equity (fund p)) (bonds (fund p))) (other (fund p)) \<and>
     r p' = py_round2 (fmul ret 100) \<and>
     liability p' = py_round2 (totalLiability pop) \<and>
     pensPlan.payGo p' = py_round2 (fst (payBenefits f2 (info_benefit pop))) \<and>
     pensPlan.currentYear p' = pensPlan.currentYear p + 1 \<and>
     fund p' = updateLedger f3 (pensPlan.currentYear p') \<and>
     ledger (fund p') (pensPlan.currentYear p') = Some (equity f3, bonds f3, other f3) \<and>
     assets p' = fadd (fadd (equity f3) (bonds f3)) (other f3)"
proof -
  assume ae: "fst (addInvestmentEarnings (fund p) e b ot) = Inr (ret, A)"
    and f1: "f1 = snd (addInvestmentEarnings (fund p) e b ot)"
    and f2: "f2 = addPremiums f1 (fmul (pr p) (fsub (py_round2 (totalLiability pop)) (liability p)))"
    and f3: "f3 = snd (payBenefits f2 (info_benefit pop))"
    and p': "p' = snd (advanceOneYear p pop e b ot)"
  from ae f1 have ae': "addInvestmentEarnings (fund p) e b ot = (Inr (ret, A), f1)"
    by (simp add: prod_eq_iff)
  from f2 f3 have pb: "payBenefits (addPremiums f1 (fmul (pr p)
        (fsub (py_round2 (totalLiability pop)) (liability p)))) (info_benefit pop)
      = (fst (payBenefits f2 (info_benefit pop)), f3)"
    by (simp add: prod_eq_iff)
  have A: "A = fadd (fadd (equity (fund p)) (bonds (fund p))) (other (fund p))"
    using earnings_total [OF ae] by simp
  note st = advanceOneYear_steps [OF ae' refl pb refl refl]
  from st p' A show ?thesis
    by (auto simp add: updateLedger_def split: sum.splits)
qed

theorem advanceOneYear_order_witness:
  "fst (addInvestmentEarnings (fund_with 32 8 8) (1 / 2) 0 0) = Inr (fl (1 / 3), 48)
   \<and> snd (addInvestmentEarnings (fund_with 32 8 8) (1 / 2) 0 0)
       = fund_with 32 8 8 \<lparr> equity := 48 \<rparr>
   \<and> addPremiums (fund_with 32 8 8 \<lparr> equity := 48 \<rparr>) 64
       = fund_with 32 8 8 \<lparr> equity := 96, bonds := 16, other := 16 \<rparr>
   \<and> payBenefits (fund_with 32 8 8 \<lparr> equity := 96, bonds := 16, other := 16 \<rparr>) 96
       = (0, fund_with 32 8 8 \<lparr> equity := 24, bonds := 4, other := 4 \<rparr>)
   \<and> payBenefits (fund_with 32 8 8 \<lparr> equity := 48 \<rparr>) 96
       = (32, fund_with 32 8 8 \<lparr> equity := 0, bonds := 0, other := 0 \<rparr>)
   \<and> (48 :: real) = fadd (fadd 32 8) 8
   \<and> fl (3333 / 100) = py_round2 (fmul (fl (1 / 3)) 100)
   \<and> (0 :: real) = py_round2 0
   \<and> updateLedger (fund_with 32 8 8 \<lparr> equity := 24, bonds := 4, other := 4 \<rparr>) 2021
       = updateLedger (fund_with 32 8 8 \<lparr> equity := 24, bonds := 4, other := 4 \<rparr>) (2020 + 1)
   \<and> (32 :: real) = fadd (fadd 24 4) 4"
proof -
  have h1: "fst (addInvestmentEarnings (fund (plan_with (fund_with 32 8 8) 1000 500 48))
              (1 / 2) 0 0) = Inr (fl (1 / 3), 48)"
    by (simp add: addInvestmentEarnings_def sampling_test_vol fl_eval)
  have h2: "fund_with 32 8 8 \<lparr> equity := 48 \<rparr>
            = snd (addInvestmentEarnings (fund (plan_with (fund_with 32 8 8) 1000 500 48))
                (1 / 2) 0 0)"
    by (simp add: addInvestmentEarnings_def sampling_test_vol fl_eval)
  have h3: "fund_with 32 8 8 \<lparr> equity := 96, bonds := 16, other := 16 \<rparr>
            = addPremiums (fund_with 32 8 8 \<lparr> equity := 48 \<rparr>)
                (fmul (pr (plan_with (fund_with 32 8 8) 1000 500 48))
                   (fsub (py_round2 (totalLiability
                      \<lparr> info_benefit = 96, activeBefore = 10, activeAfter = 12,
                        totalLiability = 1064, totalSalary = 5000 \<rparr>))
                     (liability (plan_with (fund_with 32 8 8) 1000 500 48))))"
    by (simp add: addPremiums_def fl_eval)
  have pb: "payBenefits (fund_with 32 8 8 \<lparr> equity := 96, bonds := 16, other := 16 \<rparr>) 96
       = (0, fund_with 32 8 8 \<lparr> equity := 24, bonds := 4, other := 4 \<rparr>)"
    by (simp add: payBenefits_def payBenefits_withdraw_def payGo_def fl_eval)
  have h4: "fund_with 32 8 8 \<lparr> equity := 24, bonds := 4, other := 4 \<rparr>
            = snd (payBenefits (fund_with 32 8 8 \<lparr> equity := 96, bonds := 16, other := 16 \<rparr>)
                (info_benefit \<lparr> info_benefit = 96, activeBefore = 10, activeAfter = 12,
                        totalLiability = 1064, totalSalary = 5000 \<rparr>))"
    using pb by simp
  have h5: "plan_with (fund_with 32 8 8) 1000 500 48
        \<lparr> currentYear := 2021, liability := 1064, totalPay := 5000, r := fl (3333 / 100),
          payGo := 0,
          fund := updateLedger (fund_with 32 8 8 \<lparr> equity := 24, bonds := 4, other := 4 \<rparr>) 2021,
          assets := 32,
          instability := fsub (fadd 64 (fmul default_discountRate 1064))
                              (fadd (fmul (fl (1 / 3)) 48) 64),
          cr := fl (64 / 10000), growthRate := fl (1064 / 10), ual := 1032 \<rparr>
      = snd (advanceOneYear (plan_with (fund_with 32 8 8) 1000 500 48)
     \<lparr> info_benefit = 96, activeBefore = 10, activeAfter = 12,
       totalLiability = 1064, totalSalary = 5000 \<rparr> (1 / 2) 0 0)"
    by (simp only: order_year snd_conv)
  have early: "payBenefits (fund_with 32 8 8 \<lparr> equity := 48 \<rparr>) 96
       = (32, fund_with 32 8 8 \<lparr> equity := 0, bonds := 0, other := 0 \<rparr>)"
    by (simp add: payBenefits_def payBenefits_withdraw_def payGo_def fl_eval)
  have g1: "fst (addInvestmentEarnings (fund_with 32 8 8) (1 / 2) 0 0) = Inr (fl (1 / 3), 48)"
    using h1 by simp
  have g2: "snd (addInvestmentEarnings (fund_with 32 8 8) (1 / 2) 0 0)
       = fund_with 32 8 8 \<lparr> equity := 48 \<rparr>"
    using h2 by simp
  have g3: "addPremiums (fund_with 32 8 8 \<lparr> equity := 48 \<rparr>) 64
       = fund_with 32 8 8 \<lparr> equity := 96, bonds := 16, other := 16 \<rparr>"
    by (simp add: addPremiums_def fl_eval)
  have t: "(48 :: real) = fadd (fadd 32 8) 8
   \<and> fl (3333 / 100) = py_round2 (fmul (fl (1 / 3)) 100)
   \<and> (0 :: real) = py_round2 0
   \<and> updateLedger (fund_with 32 8 8 \<lparr> equity := 24, bonds := 4, other := 4 \<rparr>) 2021
       = updateLedger (fund_with 32 8 8 \<lparr> equity := 24, bonds := 4, other := 4 \<rparr>) (2020 + 1)
   \<and> (32 :: real) = fadd (fadd 24 4) 4"
    using advanceOneYear_order [OF h1 h2 h3 h4 h5] pb by simp
  from g1 g2 g3 pb early t show ?thesis by blast
qed

text \<open>
  C4. At the end of every call of \<open>advanceOneYear\<close> the stored \<open>ual\<close> is
  \<open>max (liability - assets - payGo) 0\<close>, and the growth rate is, rounded to 2 decimals,
  \<open>(newUAL - oldUAL) * 100 / oldUAL\<close> when the previous \<open>ual\<close> is not 0, else
  \<open>newUAL * 100 / liability\<close> when \<open>newUAL\<close> is not 0 (the liability is then not 0), else
  0. The call reaches its end whenever the earnings step returns and the contribution
  rate does not fail. With \<open>oldUAL = 0\<close>, \<open>newUAL = 500\<close> and \<open>liability = 1000\<close> the
  growth rate is 50; with \<open>newUAL = 107\<close> and \<open>liability = 4000\<close> it is the float 2.67,
  which the unrounded quotient is not.
\<close>

theorem advanceOneYear_ual_growth:
  "p' = snd (advanceOneYear p pop e b ot) \<Longrightarrow>
   (fst (advanceOneYear p pop e b ot) = None \<longrightarrow>
      ual p' = max (fsub (fsub (liability p') (assets p')) (pensPlan.payGo p')) 0 \<and>
      growthRate p' =
        py_round2 (if ual p \<noteq> 0 then fquot (fmul (fsub (ual p') (ual p)) 100) (ual p)
                   else if ual p' \<noteq> 0 then fquot (fmul (ual p') 100) (liability p')
                   else 0) \<and>
      (\<exists>k. growthRate p' = fl (of_int k / 100)) \<and>
      (ual p = 0 \<and> ual p' \<noteq> 0 \<longrightarrow> liability p' \<noteq> 0)) \<and>
   (sampling_error (vol (fund p)) = None \<and>
    fadd (fadd (equity (fund p)) (bonds (fund p))) (other (fund p)) \<noteq> 0 \<and>
    (activeAfter pop = activeBefore pop \<or> py_round2 (totalSalary pop) \<noteq> 0) \<longrightarrow>
      fst (advanceOneYear p pop e b ot) = None) \<and>
   advanceOneYear_growthRate 0 500 1000 = Inr 50 \<and>
   advanceOneYear_growthRate 0 107 4000 = Inr (fl (267 / 100)) \<and>
   fquot (fmul 107 100) 4000 \<noteq> fl (267 / 100)"
proof -
  assume p': "p' = snd (advanceOneYear p pop e b ot)"
  have ex: "advanceOneYear_growthRate 0 500 1000 = Inr 50"
           "advanceOneYear_growthRate 0 107 4000 = Inr (fl (267 / 100))"
           "fquot (fmul 107 100) 4000 \<noteq> fl (267 / 100)"
    by (simp_all add: advanceOneYear_growthRate_cases fl_eval)
  have ret: "fst (advanceOneYear p pop e b ot) = None \<longrightarrow>
      ual p' = max (fsub (fsub (liability p') (assets p')) (pensPlan.payGo p')) 0 \<and>
      growthRate p' =
        py_round2 (if ual p \<noteq> 0 then fquot (fmul (fsub (ual p') (ual p)) 100) (ual p)
                   else if ual p' \<noteq> 0 then fquot (fmul (ual p') 100) (liability p')
                   else 0) \<and>
      (\<exists>k. growthRate p' = fl (of_int k / 100)) \<and>
      (ual p = 0 \<and> ual p' \<noteq> 0 \<longrightarrow> liability p' \<noteq> 0)"
  proof (cases "addInvestmentEarnings (fund p) e b ot")
    case (Pair res f1)
    show ?thesis
    proof (cases res)
      case (Inl err)
      with Pair advanceOneYear_fails_early [of p e b ot err f1 pop] show ?thesis by simp
    next
      case (Inr ra)
      obtain ret A where ra: "ra = (ret, A)" by (cases ra) auto
      obtain s f3 where pb: "payBenefits (addPremiums f1 (fmul (pr p)
          (fsub (py_round2 (totalLiability pop)) (liability p)))) (info_benefit pop) = (s, f3)"
        by (cases "payBenefits (addPremiums f1 (fmul (pr p)
          (fsub (py_round2 (totalLiability pop)) (liability p)))) (info_benefit pop)") auto
      from Pair Inr ra have ae: "addInvestmentEarnings (fund p) e b ot = (Inr (ret, A), f1)"
        by simp
      note st = advanceOneYear_steps [OF ae refl pb refl refl]
      from st p' show ?thesis
        by (auto simp add: advanceOneYear_growthRate_cases py_round2_hundredth
              split: sum.splits if_splits)
    qed
  qed
  have tot: "sampling_error (vol (fund p)) = None \<and>
    fadd (fadd (equity (fund p)) (bonds (fund p))) (other (fund p)) \<noteq> 0 \<and>
    (activeAfter pop = activeBefore pop \<or> py_round2 (totalSalary pop) \<noteq> 0) \<longrightarrow>
      fst (advanceOneYear p pop e b ot) = None"
  proof
    assume h: "sampling_error (vol (fund p)) = None \<and>
      fadd (fadd (equity (fund p)) (bonds (fund p))) (other (fund p)) \<noteq> 0 \<and>
      (activeAfter pop = activeBefore pop \<or> py_round2 (totalSalary pop) \<noteq> 0)"
    then have "\<exists>ret A f1. addInvestmentEarnings (fund p) e b ot = (Inr (ret, A), f1)"
      by (simp add: addInvestmentEarnings_def py_div_def Let_def)
    then obtain ret A f1 where
      ae: "addInvestmentEarnings (fund p) e b ot = (Inr (ret, A), f1)" by blast
    obtain s f3 where pb: "payBenefits (addPremiums f1 (fmul (pr p)
          (fsub (py_round2 (totalLiability pop)) (liability p)))) (info_benefit pop) = (s, f3)"
      by (cases "payBenefits (addPremiums f1 (fmul (pr p)
          (fsub (py_round2 (totalLiability pop)) (liability p)))) (info_benefit pop)") auto
    from payBenefits_post [of "addPremiums f1 (fmul (pr p)
          (fsub (py_round2 (totalLiability pop)) (liability p)))" "info_benefit pop"] pb
    have s0: "0 \<le> s" and t0: "0 \<le> fadd (fadd (equity f3) (bonds f3)) (other f3)"
      by simp_all
    from s0 have rs0: "0 \<le> py_round2 s" by (rule py_round2_nonneg)
    from h have "\<exists>cr'. advanceOneYear_cr (int (activeAfter pop) - int (activeBefore pop))
             (fsub (py_round2 (totalLiability pop)) (liability p)) (py_round2 s)
             (py_round2 (totalSalary pop)) = Inr cr'"
      by (auto simp add: advanceOneYear_cr_cases)
    then obtain cr' where
      c: "advanceOneYear_cr (int (activeAfter pop) - int (activeBefore pop))
             (fsub (py_round2 (totalLiability pop)) (liability p)) (py_round2 s)
             (py_round2 (totalSalary pop)) = Inr cr'" ..
    define n where "n = max (fsub (fsub (py_round2 (totalLiability pop))
                                      (fadd (fadd (equity f3) (bonds f3)) (other f3)))
                                (py_round2 s)) 0"
    have "n \<noteq> 0 \<longrightarrow> py_round2 (totalLiability pop) \<noteq> 0"
    proof (intro impI notI)
      assume n0: "n \<noteq> 0" and l0: "py_round2 (totalLiability pop) = 0"
      have "fsub 0 (fadd (fadd (equity f3) (bonds f3)) (other f3)) \<le> 0"
        unfolding fsub_def using t0 by (intro fl_nonpos) simp
      then have "fsub (fsub 0 (fadd (fadd (equity f3) (bonds f3)) (other f3))) (py_round2 s) \<le> 0"
        unfolding fsub_def [of _ "py_round2 s"] using rs0 by (intro fl_nonpos) simp
      with n0 l0 show False by (simp add: n_def max_def split: if_splits)
    qed
    then have "\<exists>g. advanceOneYear_growthRate (ual p) n (py_round2 (totalLiability pop)) = Inr g"
      by (auto simp add: advanceOneYear_growthRate_cases)
    then obtain g where
      g: "advanceOneYear_growthRate (ual p) n (py_round2 (totalLiability pop)) = Inr g" ..
    from advanceOneYear_steps [OF ae refl pb refl n_def] c g
    show "fst (advanceOneYear p pop e b ot) = None"
      by simp
  qed
  from ret tot ex show ?thesis by blast
qed

theorem advanceOneYear_ual_growth_witness:
  "advanceOneYear (plan_with (fund_with 300 150 50) 1000 0 500)
     \<lparr> info_benefit = 0, activeBefore = 10, activeAfter = 10,
       totalLiability = 1000, totalSalary = 0 \<rparr> 0 0 0
   = (None,
      plan_with (fund_with 300 150 50) 1000 0 500
        \<lparr> currentYear := 2021, liability := 1000, totalPay := 0, r := 0, payGo := 0,
          fund := updateLedger (fund_with 300 150 50) 2021,
          assets := 500, instability := 70, cr := 0, growthRate := 50, ual := 500 \<rparr>)
   \<and> (500 :: real) = max (fsub (fsub 1000 500) 0) 0
   \<and> (50 :: real) = py_round2 (fquot (fmul 500 100) 1000)
   \<and> sampling_error test_vol = None
   \<and> fadd (fadd 300 150) 50 \<noteq> 0"
proof -
  note th = advanceOneYear_ual_growth [OF refl, of "plan_with (fund_with 300 150 50) 1000 0 500"
     "\<lparr> info_benefit = 0, activeBefore = 10, activeAfter = 10,
       totalLiability = 1000, totalSalary = 0 \<rparr>" 0 0 0]
  have hyp: "sampling_error (vol (fund (plan_with (fund_with 300 150 50) 1000 0 500))) = None \<and>
    fadd (fadd (equity (fund (plan_with (fund_with 300 150 50) 1000 0 500)))
               (bonds (fund (plan_with (fund_with 300 150 50) 1000 0 500))))
         (other (fund (plan_with (fund_with 300 150 50) 1000 0 500))) \<noteq> 0 \<and>
    (activeAfter \<lparr> info_benefit = 0, activeBefore = 10, activeAfter = 10,
       totalLiability = 1000, totalSalary = 0 \<rparr>
     = activeBefore \<lparr> info_benefit = 0, activeBefore = 10, activeAfter = 10,
       totalLiability = 1000, totalSalary = 0 \<rparr> \<or>
     py_round2 (totalSalary \<lparr> info_benefit = 0, activeBefore = 10, activeAfter = 10,
       totalLiability = 1000, totalSalary = 0 \<rparr>) \<noteq> 0)"
    by (simp add: sampling_test_vol fl_eval)
  have none: "fst (advanceOneYear (plan_with (fund_with 300 150 50) 1000 0 500)
     \<lparr> info_benefit = 0, activeBefore = 10, activeAfter = 10,
       totalLiability = 1000, totalSalary = 0 \<rparr> 0 0 0) = None"
    using th [THEN conjunct2, THEN conjunct1, THEN mp, OF hyp] .
  have a: "(500 :: real) = max (fsub (fsub 1000 500) 0) 0
     \<and> (50 :: real) = py_round2 (fquot (fmul 500 100) 1000)"
    using th [THEN conjunct1, THEN mp, OF none]
    by (simp add: fallback_year)
  have b: "sampling_error test_vol = None \<and> fadd (fadd 300 150) 50 \<noteq> 0"
    by (simp add: sampling_test_vol fl_eval)
  from fallback_year a b show ?thesis by blast
qed

section \<open>The annual report\<close>

text \<open>
  C8, as the spec states it, fails for a year that no float can hold: \<open>10 ^ 400\<close> is
  absent from the ledger, and the report raises \<open>OverflowError\<close> when it formats the
  year for the not-found message.
\<close>

theorem annualReport_overflow_counterexample:
  "ledger (fund_with 100 30 10) (10 ^ 400) = None \<and>
   (\<forall>grouped fixed0. \<forall>kinds :: bool \<times> bool \<times> bool \<times> bool.
      annualReport grouped fixed0 kinds (fund_with 100 30 10) (10 ^ 400) = Inl OverflowError)"
  by (simp add: annualReport_def)

text \<open>
  C8, amended. The year reported on is the argument, or the fund's current year when the
  argument is the default 0. When it is absent from the ledger and a float can hold it,
  \<open>annualReport\<close> returns the not-found message naming that year; when it is absent and
  of magnitude \<open>2 ^ 1024 - 2 ^ 970\<close> or more, \<open>annualReport\<close> raises \<open>OverflowError\<close>;
  when it is in the ledger, \<open>annualReport\<close> returns that year's three balances and
  their float sum rounded to 2 decimals, each in the grouped format.
\<close>

theorem annualReport_cases:
  "year = (if year0 = 0 then pensFund.currentYear f else year0) \<Longrightarrow>
   (ledger f year = None \<and> \<bar>year\<bar> < 2 ^ 1024 - 2 ^ 970 \<longrightarrow>
      annualReport grouped fixed0 kinds f year0
        = Inr (''Assets could not be found for the year '' @ fixed0 year @ ''.'')) \<and>
   (ledger f year = None \<and> 2 ^ 1024 - 2 ^ 970 \<le> \<bar>year\<bar> \<longrightarrow>
      annualReport grouped fixed0 kinds f year0 = Inl OverflowError) \<and>
   (ledger f year = Some (x0, x1, x2) \<and> kinds = (k0, k1, k2, k3) \<longrightarrow>
      annualReport grouped fixed0 kinds f year0
        = Inr (''Assets:'' @ [CHR 0x0A, CHR 0x09] @ ''Equity = $'' @ grouped k0 x0
               @ [CHR 0x0A, CHR 0x09] @ ''Bonds = $'' @ grouped k1 x1
               @ [CHR 0x0A, CHR 0x09] @ ''Other = $'' @ grouped k2 x2
               @ [CHR 0x0A] @ ''Total: $''
               @ grouped k3 (py_round2 (fadd (fadd x0 x1) x2))))"
  by (simp add: annualReport_def Let_def)

theorem annualReport_cases_witness:
  "\<forall>grouped fixed0.
     ledger (fund_with 100 30 10) 2022 = None \<and> \<bar>2022 :: int\<bar> < 2 ^ 1024 - 2 ^ 970 \<and>
     annualReport grouped fixed0 (False, False, False, False) (fund_with 100 30 10) 2022
       = Inr (''Assets could not be found for the year '' @ fixed0 2022 @ ''.'') \<and>
     ledger (fund_with 100 30 10) 2020 = Some (100, 30, 10) \<and>
     annualReport grouped fixed0 (False, False, False, False) (fund_with 100 30 10) 2020
       = Inr (''Assets:'' @ [CHR 0x0A, CHR 0x09] @ ''Equity = $'' @ grouped False 100
              @ [CHR 0x0A, CHR 0x09] @ ''Bonds = $'' @ grouped False 30
              @ [CHR 0x0A, CHR 0x09] @ ''Other = $'' @ grouped False 10
              @ [CHR 0x0A] @ ''Total: $'' @ grouped False 140) \<and>
     annualReport grouped fixed0 (False, False, False, False) (fund_with 100 30 10) 0
       = annualReport grouped fixed0 (False, False, False, False) (fund_with 100 30 10) 2020 \<and>
     ledger (fund_with 100 30 10) (2 ^ 1024) = None \<and>
     annualReport grouped fixed0 (False, False, False, False) (fund_with 100 30 10) (2 ^ 1024)
       = Inl OverflowError"
proof (intro allI)
  fix grouped :: "bool \<Rightarrow> real \<Rightarrow> string" and fixed0 :: "int \<Rightarrow> string"
  have y1: "(2022 :: int) = (if (2022 :: int) = 0 then pensFund.currentYear (fund_with 100 30 10)
                             else 2022)"
    and y2: "(2020 :: int) = (if (2020 :: int) = 0 then pensFund.currentYear (fund_with 100 30 10)
                             else 2020)"
    and y3: "(2020 :: int) = (if (0 :: int) = 0 then pensFund.currentYear (fund_with 100 30 10)
                             else 0)"
    and y4: "(2 ^ 1024 :: int) = (if (2 ^ 1024 :: int) = 0
                             then pensFund.currentYear (fund_with 100 30 10) else 2 ^ 1024)"
    by simp_all
  have l1: "ledger (fund_with 100 30 10) 2022 = None \<and> \<bar>2022 :: int\<bar> < 2 ^ 1024 - 2 ^ 970"
    by simp
  have l2: "ledger (fund_with 100 30 10) 2020 = Some (100, 30, 10)
            \<and> (False, False, False, False) = (False, False, False, False)"
    by simp
  have l4: "ledger (fund_with 100 30 10) (2 ^ 1024) = None
            \<and> 2 ^ 1024 - 2 ^ 970 \<le> \<bar>2 ^ 1024 :: int\<bar>"
    by simp
  have r: "py_round2 (fadd (fadd 100 30) 10) = 140" by (simp add: fl_eval)
  note a = annualReport_cases [OF y1, where grouped = grouped and ?fixed0.0 = fixed0
             and kinds = "(False, False, False, False)", THEN conjunct1, THEN mp, OF l1]
  note b = annualReport_cases [OF y2, where grouped = grouped and ?fixed0.0 = fixed0
             and kinds = "(False, False, False, False)"
             and ?x0.0 = 100 and ?x1.0 = 30 and ?x2.0 = 10
             and ?k0.0 = False and ?k1.0 = False and ?k2.0 = False and ?k3.0 = False,
             THEN conjunct2, THEN conjunct2, THEN mp, OF l2]
  note c = annualReport_cases [OF y3, where grouped = grouped and ?fixed0.0 = fixed0
             and kinds = "(False, False, False, False)"
             and ?x0.0 = 100 and ?x1.0 = 30 and ?x2.0 = 10
             and ?k0.0 = False and ?k1.0 = False and ?k2.0 = False and ?k3.0 = False,
             THEN conjunct2, THEN conjunct2, THEN mp, OF l2]
  note d = annualReport_cases [OF y4, where grouped = grouped and ?fixed0.0 = fixed0
             and kinds = "(False, False, False, False)",
             THEN conjunct2, THEN conjunct1, THEN mp, OF l4]
  from b r have b': "annualReport grouped fixed0 (False, False, False, False)
         (fund_with 100 30 10) 2020
       = Inr (''Assets:'' @ [CHR 0x0A, CHR 0x09] @ ''Equity = $'' @ grouped False 100
              @ [CHR 0x0A, CHR 0x09] @ ''Bonds = $'' @ grouped False 30
              @ [CHR 0x0A, CHR 0x09] @ ''Other = $'' @ grouped False 10
              @ [CHR 0x0A] @ ''Total: $'' @ grouped False 140)"
    by simp
  from b c have c': "annualReport grouped fixed0 (False, False, False, False)
         (fund_with 100 30 10) 0
       = annualReport grouped fixed0 (False, False, False, False) (fund_with 100 30 10) 2020"
    by simp
  from a b' c' d l1 l2 l4
  show "ledger (fund_with 100 30 10) 2022 = None \<and> \<bar>2022 :: int\<bar> < 2 ^ 1024 - 2 ^ 970 \<and>
     annualReport grouped fixed0 (False, False, False, False) (fund_with 100 30 10) 2022
       = Inr (''Assets could not be found for the year '' @ fixed0 2022 @ ''.'') \<and>
     ledger (fund_with 100 30 10) 2020 = Some (100, 30, 10) \<and>
     annualReport grouped fixed0 (False, False, False, False) (fund_with 100 30 10) 2020
       = Inr (''Assets:'' @ [CHR 0x0A, CHR 0x09] @ ''Equity = $'' @ grouped False 100
              @ [CHR 0x0A, CHR 0x09] @ ''Bonds = $'' @ grouped False 30
              @ [CHR 0x0A, CHR 0x09] @ ''Other = $'' @ grouped False 10
              @ [CHR 0x0A] @ ''Total: $'' @ grouped False 140) \<and>
     annualReport grouped fixed0 (False, False, False, False) (fund_with 100 30 10) 0
       = annualReport grouped fixed0 (False, False, False, False) (fund_with 100 30 10) 2020 \<and>
     ledger (fund_with 100 30 10) (2 ^ 1024) = None \<and>
     annualReport grouped fixed0 (False, False, False, False) (fund_with 100 30 10) (2 ^ 1024)
       = Inl OverflowError"
    by blast
qed

end
